theory Spec2Isabelle
  imports Complex_Main
begin

section \<open>Data model\<close>

text \<open>
  The store of \<^verbatim>\<open>internal/database/database.go\<close> is an SQLite file with the tables
  \<^verbatim>\<open>channels\<close>, \<^verbatim>\<open>posted_news\<close> and \<^verbatim>\<open>news_cache\<close>. A table is modelled as the list
  of its rows in insertion order. Timestamps are seconds as \<open>int\<close>. Go's \<^verbatim>\<open>error\<close> values
  are modelled by the datatype \<open>error\<close>: \<open>Errorf m e\<close> is \<^verbatim>\<open>fmt.Errorf(m + ": %v", e)\<close>.
\<close>

datatype error =
    ErrNoRows
  | SqlFailure string
  | HttpFailure string
  | ChatFailure string
  | JsonFailure string
  | Errorf string "error option"

text \<open>\<^verbatim>\<open>types.NewsItem\<close>; \<open>ID\<close> is Go's \<^verbatim>\<open>int64\<close>, kept inside its range by the decoder.\<close>

record NewsItem =
  ID :: int
  Title :: string
  Summary :: string
  Content :: string
  Tags :: "string list"
  Platforms :: "string list"
  Updated :: int
  ThumbnailURL :: string

text \<open>\<^verbatim>\<open>types.DatabaseOptions\<close>.\<close>

record DatabaseOptions =
  UseBatch :: bool
  IgnoreErrors :: bool
  RetryCount :: int
  LogProgress :: bool

definition DefaultDatabaseOptions :: DatabaseOptions where
  "DefaultDatabaseOptions =
     \<lparr>UseBatch = False, IgnoreErrors = False, RetryCount = 3, LogProgress = False\<rparr>"

definition BulkDatabaseOptions :: DatabaseOptions where
  "BulkDatabaseOptions =
     \<lparr>UseBatch = True, IgnoreErrors = True, RetryCount = 3, LogProgress = True\<rparr>"

text \<open>A row of \<^verbatim>\<open>channels\<close>: id, comma-joined platforms, environment, two timestamps.\<close>

record channel_row =
  ch_id :: string
  ch_platforms :: string
  ch_environment :: string
  ch_created_at :: int
  ch_updated_at :: int

text \<open>
  A row of \<^verbatim>\<open>posted_news\<close>. The surrogate key \<^verbatim>\<open>id INTEGER PRIMARY KEY AUTOINCREMENT\<close>
  of the current schema is read by no query of the program and is left out; \<open>posted_at\<close> is
  \<open>None\<close> for SQL \<^verbatim>\<open>NULL\<close>.
\<close>

record posted_row =
  news_id :: int
  channel_id :: string
  posted_at :: "int option"

text \<open>
  The three shapes a delivery table takes: the legacy one (\<^verbatim>\<open>news_id INTEGER PRIMARY KEY\<close>),
  the current one (\<^verbatim>\<open>UNIQUE(news_id, channel_id)\<close>), and the constraint-free copy that
  \<^verbatim>\<open>CREATE TABLE ... AS SELECT\<close> makes.
\<close>

datatype posted_schema = LegacyPrimaryKey | CompositeUnique | NoConstraint

record posted_table =
  key_schema :: posted_schema
  has_posted_at :: bool
  prows :: "posted_row list"

text \<open>A row of \<^verbatim>\<open>news_cache\<close>: the article as stored, and \<^verbatim>\<open>fetched_at\<close>.\<close>

record cache_row =
  c_id :: int
  c_title :: string
  c_summary :: string
  c_content :: string
  c_tags :: string
  c_platforms :: string
  c_updated_at :: int
  c_thumbnail_url :: string
  c_fetched_at :: int

text \<open>
  The database file. \<open>None\<close> is a table that does not exist. For \<^verbatim>\<open>channels\<close> and
  \<^verbatim>\<open>news_cache\<close> the column names are kept, since the migration adds columns.
\<close>

record database =
  channels :: "channel_row list option"
  channels_columns :: "string list"
  posted_news :: "posted_table option"
  posted_news_backup :: "posted_table option"
  news_cache :: "cache_row list option"
  news_cache_columns :: "string list"
  indexes :: "string list"

section \<open>The environment\<close>

text \<open>
  Everything outside the process answers through an oracle indexed by a clock that counts
  the external calls made so far: whether the database driver fails a call, what time it
  is, what the upstream feed and the chat service answer. A schedule of failures is a
  choice of these functions.
\<close>

text \<open>
  \<^verbatim>\<open>discordgo.MessageEmbed\<close>, with the fields the program writes or reads.
\<close>

record MessageEmbedField =
  FieldName :: string
  FieldValue :: string
  FieldInline :: bool

record MessageEmbed =
  EmbedTitle :: string
  EmbedDescription :: string
  EmbedURL :: string
  EmbedColor :: int
  EmbedTimestamp :: string
  EmbedFooter :: string
  EmbedFields :: "MessageEmbedField list"
  EmbedThumbnail :: "string option"

text \<open>\<^verbatim>\<open>discordgo.Message\<close>: author id, content, embeds.\<close>

record chat_message =
  msg_author :: string
  msg_content :: string
  msg_embeds :: "MessageEmbed list"

text \<open>
  A JSON value as \<^verbatim>\<open>encoding/json\<close> sees it; a number is the \<^verbatim>\<open>float64\<close> it is read as.
\<close>

datatype json =
    JNull
  | JBool bool
  | JNumber rat
  | JString string
  | JArray "json list"
  | JObject "(string \<times> json) list"

text \<open>
  The query of a request to the news API, as \<^verbatim>\<open>buildNewsURL\<close> builds it: a parameter
  that is left out of the URL is \<open>None\<close>.
\<close>

record news_request =
  q_tag :: "string option"
  q_limit :: "int option"
  q_offset :: "int option"
  q_fields :: "string list"
  q_platform :: "string option"

text \<open>
  What \<^verbatim>\<open>client.Get\<close> gives: a transport error, or a status code with the body (\<open>None\<close>
  for a body that is not JSON).
\<close>

datatype http_reply = GetFailed | Reply int "json option"

record env =
  db_fault :: "nat \<Rightarrow> bool"
  now :: "nat \<Rightarrow> int"
  http_get :: "nat \<Rightarrow> news_request \<Rightarrow> http_reply"
  chat_send :: "nat \<Rightarrow> string \<Rightarrow> MessageEmbed \<Rightarrow> error option"
  chat_messages :: "nat \<Rightarrow> string \<Rightarrow> int \<Rightarrow> error + chat_message list"
  self_user :: string
  time_parse :: "string \<Rightarrow> string \<Rightarrow> int option"
  time_format :: "string \<Rightarrow> int \<Rightarrow> string"
  extract_text :: "string \<Rightarrow> string"

text \<open>
  The last three fields are pure functions the program calls and this theory leaves
  open: \<^verbatim>\<open>time.Parse\<close> (layout, text), \<^verbatim>\<open>Time.Format\<close> (layout, time), and
  \<^verbatim>\<open>extractTextFromHTML\<close>, which no property below depends on.
\<close>

text \<open>
  The state: the database, the log of successful posts (channel and article, newest
  first) and the clock.
\<close>

record world =
  db :: database
  posts :: "(string \<times> NewsItem) list"
  clock :: nat

definition advance :: "world \<Rightarrow> world" where
  "advance w = w\<lparr>clock := Suc (clock w)\<rparr>"

text \<open>
  \<^verbatim>\<open>db.Exec\<close>: one statement outside a transaction. The driver may fail it (the oracle),
  or the statement itself may (a missing table); either way the database is unchanged.
\<close>

definition exec :: "env \<Rightarrow> (database \<Rightarrow> error + database) \<Rightarrow> world \<Rightarrow> error option \<times> world" where
  "exec e stmt w =
     (if db_fault e (clock w) then (Some (SqlFailure ''driver''), advance w)
      else case stmt (db w) of
             Inl err \<Rightarrow> (Some err, advance w)
           | Inr d \<Rightarrow> (None, advance (w\<lparr>db := d\<rparr>)))"

text \<open>\<^verbatim>\<open>db.QueryRow(...).Scan\<close> and \<^verbatim>\<open>db.Query\<close>: a read.\<close>

definition query :: "env \<Rightarrow> (database \<Rightarrow> error + 'a) \<Rightarrow> world \<Rightarrow> (error + 'a) \<times> world" where
  "query e q w =
     (if db_fault e (clock w) then (Inl (SqlFailure ''driver''), advance w)
      else (q (db w), advance w))"

section \<open>The delivery ledger\<close>

text \<open>\<^verbatim>\<open>SELECT 1 FROM posted_news WHERE news_id = ? AND channel_id = ?\<close>.\<close>

definition sql_select_posted :: "int \<Rightarrow> string \<Rightarrow> database \<Rightarrow> error + int" where
  "sql_select_posted newsID channelID d =
     (case posted_news d of
        None \<Rightarrow> Inl (SqlFailure ''no such table: posted_news'')
      | Some t \<Rightarrow>
          if \<exists>r \<in> set (prows t). news_id r = newsID \<and> channel_id r = channelID
          then Inr 1 else Inl ErrNoRows)"

text \<open>
  Whether inserting \<open>(newsID, channelID)\<close> conflicts with a row of the table, under the
  constraint the table's schema declares.
\<close>

definition conflicts :: "posted_table \<Rightarrow> int \<Rightarrow> string \<Rightarrow> bool" where
  "conflicts t newsID channelID =
     (case key_schema t of
        LegacyPrimaryKey \<Rightarrow> (\<exists>r \<in> set (prows t). news_id r = newsID)
      | CompositeUnique \<Rightarrow>
          (\<exists>r \<in> set (prows t). news_id r = newsID \<and> channel_id r = channelID)
      | NoConstraint \<Rightarrow> False)"

text \<open>
  \<^verbatim>\<open>INSERT OR IGNORE INTO posted_news (news_id, channel_id) VALUES (?, ?)\<close>: the row is
  skipped when it conflicts; \<^verbatim>\<open>posted_at\<close> takes its default \<^verbatim>\<open>CURRENT_TIMESTAMP\<close> where
  the column exists.
\<close>

definition insert_or_ignore :: "posted_table \<Rightarrow> posted_row \<Rightarrow> posted_table" where
  "insert_or_ignore t r =
     (if conflicts t (news_id r) (channel_id r) then t else t\<lparr>prows := prows t @ [r]\<rparr>)"

definition sql_insert_posted :: "int \<Rightarrow> int \<Rightarrow> string \<Rightarrow> database \<Rightarrow> error + database" where
  "sql_insert_posted t newsID channelID d =
     (case posted_news d of
        None \<Rightarrow> Inl (SqlFailure ''no such table: posted_news'')
      | Some tab \<Rightarrow>
          Inr (d\<lparr>posted_news := Some (insert_or_ignore tab
                 \<lparr>news_id = newsID, channel_id = channelID,
                  posted_at = (if has_posted_at tab then Some t else None)\<rparr>)\<rparr>))"

text \<open>\<^verbatim>\<open>IsNewsPosted\<close>.\<close>

definition IsNewsPosted :: "env \<Rightarrow> int \<Rightarrow> string \<Rightarrow> world \<Rightarrow> (error + bool) \<times> world" where
  "IsNewsPosted e newsID channelID w =
     (case query e (sql_select_posted newsID channelID) w of
        (Inl ErrNoRows, w') \<Rightarrow> (Inr False, w')
      | (Inl err, w') \<Rightarrow> (Inl (Errorf ''failed to check if news is posted'' (Some err)), w')
      | (Inr _, w') \<Rightarrow> (Inr True, w'))"

text \<open>
  \<^verbatim>\<open>MarkNewsAsPostedWithOptions\<close>: the statement is tried for
  \<^verbatim>\<open>attempt = 0 .. RetryCount\<close>, returning at the first success; \<open>err\<close> is the last error.
\<close>

function mark_attempts ::
  "env \<Rightarrow> int \<Rightarrow> string \<Rightarrow> int \<Rightarrow> int \<Rightarrow> error option \<Rightarrow> world \<Rightarrow> error option \<times> world" where
  "mark_attempts e newsID channelID retryCount attempt err w =
     (if attempt \<le> retryCount then
        (case exec e (sql_insert_posted (now e (clock w)) newsID channelID) w of
           (None, w') \<Rightarrow> (None, w')
         | (Some err', w') \<Rightarrow>
             mark_attempts e newsID channelID retryCount (attempt + 1) (Some err') w')
      else (Some (Errorf ''failed to mark news as posted after retries'' err), w))"
  by pat_completeness auto
termination
  by (relation "measure (\<lambda>(e, n, c, retryCount, attempt, err, w). nat (retryCount + 1 - attempt))")
     auto

definition MarkNewsAsPostedWithOptions ::
  "env \<Rightarrow> int \<Rightarrow> string \<Rightarrow> DatabaseOptions \<Rightarrow> world \<Rightarrow> error option \<times> world" where
  "MarkNewsAsPostedWithOptions e newsID channelID options w =
     mark_attempts e newsID channelID (RetryCount options) 0 None w"

definition MarkNewsAsPosted :: "env \<Rightarrow> int \<Rightarrow> string \<Rightarrow> world \<Rightarrow> error option \<times> world" where
  "MarkNewsAsPosted e newsID channelID w =
     MarkNewsAsPostedWithOptions e newsID channelID DefaultDatabaseOptions w"


section \<open>Transactions\<close>

text \<open>
  \<^verbatim>\<open>db.Begin\<close> hands out a private copy of the database; \<^verbatim>\<open>tx.Exec\<close> works on the copy;
  \<^verbatim>\<open>tx.Commit\<close> installs it. The deferred \<^verbatim>\<open>tx.Rollback\<close> drops the copy whenever the
  function returns without a successful commit, which is what returning the unchanged
  world does here. A statement that fails inside a transaction leaves the copy as it was.
\<close>

definition begin_tx :: "env \<Rightarrow> world \<Rightarrow> (error + database) \<times> world" where
  "begin_tx e w =
     (if db_fault e (clock w) then (Inl (SqlFailure ''driver''), advance w)
      else (Inr (db w), advance w))"

definition tx_exec ::
  "env \<Rightarrow> (database \<Rightarrow> error + database) \<Rightarrow> database \<Rightarrow> world \<Rightarrow> (error option \<times> database) \<times> world" where
  "tx_exec e stmt txd w =
     (if db_fault e (clock w) then ((Some (SqlFailure ''driver''), txd), advance w)
      else case stmt txd of
             Inl err \<Rightarrow> ((Some err, txd), advance w)
           | Inr d \<Rightarrow> ((None, d), advance w))"

definition commit_tx :: "env \<Rightarrow> database \<Rightarrow> world \<Rightarrow> error option \<times> world" where
  "commit_tx e txd w =
     (if db_fault e (clock w) then (Some (SqlFailure ''driver''), advance w)
      else (None, advance (w\<lparr>db := txd\<rparr>)))"

section \<open>Strings\<close>

text \<open>\<^verbatim>\<open>strings.Join\<close> and \<^verbatim>\<open>strings.Split\<close> with a one-character separator.\<close>

fun join :: "string \<Rightarrow> string list \<Rightarrow> string" where
  "join sep [] = []"
| "join sep [x] = x"
| "join sep (x # y # ys) = x @ sep @ join sep (y # ys)"

fun split_on :: "char \<Rightarrow> string \<Rightarrow> string list" where
  "split_on c [] = [[]]"
| "split_on c (x # xs) =
     (if x = c then [] # split_on c xs
      else (case split_on c xs of
              [] \<Rightarrow> [[x]]
            | p # ps \<Rightarrow> (x # p) # ps))"

section \<open>Subscriptions\<close>

text \<open>\<^verbatim>\<open>SELECT 1 FROM channels WHERE id = ?\<close>.\<close>

definition sql_select_channel :: "string \<Rightarrow> database \<Rightarrow> error + int" where
  "sql_select_channel channelID d =
     (case channels d of
        None \<Rightarrow> Inl (SqlFailure ''no such table: channels'')
      | Some rs \<Rightarrow> if \<exists>r \<in> set rs. ch_id r = channelID then Inr 1 else Inl ErrNoRows)"

text \<open>
  \<^verbatim>\<open>INSERT OR REPLACE INTO channels (id, platforms, environment, updated_at)
  VALUES (?, 'pc,xbox,ps', ?, CURRENT_TIMESTAMP)\<close>: a row with the same primary key is
  deleted first; \<^verbatim>\<open>created_at\<close> takes its default; the \<^verbatim>\<open>CHECK\<close> on
  \<^verbatim>\<open>environment\<close> fails the statement.
\<close>

definition sql_replace_channel :: "int \<Rightarrow> string \<Rightarrow> string \<Rightarrow> database \<Rightarrow> error + database" where
  "sql_replace_channel t channelID environment d =
     (case channels d of
        None \<Rightarrow> Inl (SqlFailure ''no such table: channels'')
      | Some rs \<Rightarrow>
          if \<not> set [''id'', ''platforms'', ''environment'', ''updated_at'']
                 \<subseteq> set (channels_columns d)
          then Inl (SqlFailure ''no such column'')
          else if environment \<noteq> ''DEV'' \<and> environment \<noteq> ''PROD''
          then Inl (SqlFailure ''CHECK constraint failed'')
          else Inr (d\<lparr>channels := Some (filter (\<lambda>r. ch_id r \<noteq> channelID) rs @
                  [\<lparr>ch_id = channelID, ch_platforms = ''pc,xbox,ps'',
                    ch_environment = environment, ch_created_at = t,
                    ch_updated_at = t\<rparr>])\<rparr>))"

text \<open>\<^verbatim>\<open>DELETE FROM channels WHERE id = ?\<close>.\<close>

definition sql_delete_channel :: "string \<Rightarrow> database \<Rightarrow> error + database" where
  "sql_delete_channel channelID d =
     (case channels d of
        None \<Rightarrow> Inl (SqlFailure ''no such table: channels'')
      | Some rs \<Rightarrow> Inr (d\<lparr>channels := Some (filter (\<lambda>r. ch_id r \<noteq> channelID) rs)\<rparr>))"

text \<open>\<^verbatim>\<open>DELETE FROM posted_news WHERE channel_id = ?\<close>.\<close>

definition sql_delete_posted :: "string \<Rightarrow> database \<Rightarrow> error + database" where
  "sql_delete_posted channelID d =
     (case posted_news d of
        None \<Rightarrow> Inl (SqlFailure ''no such table: posted_news'')
      | Some t \<Rightarrow>
          Inr (d\<lparr>posted_news :=
                 Some (t\<lparr>prows := filter (\<lambda>r. channel_id r \<noteq> channelID) (prows t)\<rparr>)\<rparr>))"

text \<open>\<^verbatim>\<open>SELECT platforms FROM channels WHERE id = ?\<close> (the first matching row).\<close>

definition sql_select_platforms :: "string \<Rightarrow> database \<Rightarrow> error + string" where
  "sql_select_platforms channelID d =
     (case channels d of
        None \<Rightarrow> Inl (SqlFailure ''no such table: channels'')
      | Some rs \<Rightarrow>
          (case filter (\<lambda>r. ch_id r = channelID) rs of
             [] \<Rightarrow> Inl ErrNoRows
           | r # _ \<Rightarrow> Inr (ch_platforms r)))"

text \<open>\<^verbatim>\<open>SELECT environment FROM channels WHERE id = ?\<close>.\<close>

definition sql_select_environment :: "string \<Rightarrow> database \<Rightarrow> error + string" where
  "sql_select_environment channelID d =
     (case channels d of
        None \<Rightarrow> Inl (SqlFailure ''no such table: channels'')
      | Some rs \<Rightarrow>
          if ''environment'' \<notin> set (channels_columns d)
          then Inl (SqlFailure ''no such column'')
          else (case filter (\<lambda>r. ch_id r = channelID) rs of
                  [] \<Rightarrow> Inl ErrNoRows
                | r # _ \<Rightarrow> Inr (ch_environment r)))"

text \<open>\<^verbatim>\<open>SELECT id FROM channels\<close> and \<^verbatim>\<open>SELECT id FROM channels WHERE environment = ?\<close>.\<close>

definition sql_select_channel_ids :: "database \<Rightarrow> error + string list" where
  "sql_select_channel_ids d =
     (case channels d of
        None \<Rightarrow> Inl (SqlFailure ''no such table: channels'')
      | Some rs \<Rightarrow> Inr (map ch_id rs))"

definition sql_select_channel_ids_env :: "string \<Rightarrow> database \<Rightarrow> error + string list" where
  "sql_select_channel_ids_env environment d =
     (case channels d of
        None \<Rightarrow> Inl (SqlFailure ''no such table: channels'')
      | Some rs \<Rightarrow>
          if ''environment'' \<notin> set (channels_columns d)
          then Inl (SqlFailure ''no such column'')
          else Inr (map ch_id (filter (\<lambda>r. ch_environment r = environment) rs)))"

text \<open>\<^verbatim>\<open>GetChannelPlatforms\<close>: an unregistered channel has the empty list.\<close>

definition GetChannelPlatforms :: "env \<Rightarrow> string \<Rightarrow> world \<Rightarrow> (error + string list) \<times> world" where
  "GetChannelPlatforms e channelID w =
     (case query e (sql_select_platforms channelID) w of
        (Inl ErrNoRows, w') \<Rightarrow> (Inr [], w')
      | (Inl err, w') \<Rightarrow> (Inl (Errorf ''failed to get channel platforms'' (Some err)), w')
      | (Inr platforms, w') \<Rightarrow> (Inr (split_on CHR '','' platforms), w'))"

text \<open>\<^verbatim>\<open>GetChannelEnvironment\<close>: an unregistered channel counts as \<^verbatim>\<open>PROD\<close>.\<close>

definition GetChannelEnvironment :: "env \<Rightarrow> string \<Rightarrow> world \<Rightarrow> (error + string) \<times> world" where
  "GetChannelEnvironment e channelID w =
     (case query e (sql_select_environment channelID) w of
        (Inl ErrNoRows, w') \<Rightarrow> (Inr ''PROD'', w')
      | (Inl err, w') \<Rightarrow> (Inl (Errorf ''failed to get channel environment'' (Some err)), w')
      | (Inr environment, w') \<Rightarrow> (Inr environment, w'))"

text \<open>\<^verbatim>\<open>GetRegisteredChannels\<close> and \<^verbatim>\<open>GetChannelsByEnvironment\<close>.\<close>

definition GetRegisteredChannels :: "env \<Rightarrow> world \<Rightarrow> (error + string list) \<times> world" where
  "GetRegisteredChannels e w =
     (case query e sql_select_channel_ids w of
        (Inl err, w') \<Rightarrow> (Inl (Errorf ''failed to query channels'' (Some err)), w')
      | (Inr ids, w') \<Rightarrow> (Inr ids, w'))"

definition GetChannelsByEnvironment :: "env \<Rightarrow> string \<Rightarrow> world \<Rightarrow> (error + string list) \<times> world" where
  "GetChannelsByEnvironment e environment w =
     (if environment \<noteq> ''DEV'' \<and> environment \<noteq> ''PROD''
      then (Inl (Errorf ''invalid environment value'' None), w)
      else case query e (sql_select_channel_ids_env environment) w of
             (Inl err, w') \<Rightarrow> (Inl (Errorf ''failed to query channels by environment'' (Some err)), w')
           | (Inr ids, w') \<Rightarrow> (Inr ids, w'))"

text \<open>
  \<^verbatim>\<open>RemoveChannel\<close>: both deletions run inside one transaction; any error returns before
  the commit, and the deferred rollback discards the transaction.
\<close>

definition RemoveChannel :: "env \<Rightarrow> string \<Rightarrow> world \<Rightarrow> error option \<times> world" where
  "RemoveChannel e channelID w =
     (case begin_tx e w of
        (Inl err, w1) \<Rightarrow> (Some (Errorf ''failed to begin transaction'' (Some err)), w1)
      | (Inr tx, w1) \<Rightarrow>
          (case tx_exec e (sql_delete_channel channelID) tx w1 of
             ((Some err, _), w2) \<Rightarrow> (Some (Errorf ''failed to remove channel'' (Some err)), w2)
           | ((None, tx2), w2) \<Rightarrow>
               (case tx_exec e (sql_delete_posted channelID) tx2 w2 of
                  ((Some err, _), w3) \<Rightarrow>
                     (Some (Errorf ''failed to remove posted news'' (Some err)), w3)
                | ((None, tx3), w3) \<Rightarrow> commit_tx e tx3 w3)))"


section \<open>The article cache\<close>

definition cache_insert_columns :: "string list" where
  "cache_insert_columns =
     [''id'', ''title'', ''summary'', ''content'', ''tags'', ''platforms'', ''updated_at'',
      ''thumbnail_url'', ''fetched_at'']"

definition cache_select_columns :: "string list" where
  "cache_select_columns =
     [''id'', ''title'', ''summary'', ''content'', ''tags'', ''platforms'', ''updated_at'',
      ''thumbnail_url'']"

text \<open>
  \<^verbatim>\<open>INSERT OR REPLACE INTO news_cache (...) VALUES (..., CURRENT_TIMESTAMP)\<close>, with the
  platforms and tags joined by commas as the caller does.
\<close>

definition sql_replace_cache :: "int \<Rightarrow> NewsItem \<Rightarrow> database \<Rightarrow> error + database" where
  "sql_replace_cache t item d =
     (case news_cache d of
        None \<Rightarrow> Inl (SqlFailure ''no such table: news_cache'')
      | Some rs \<Rightarrow>
          if \<not> set cache_insert_columns \<subseteq> set (news_cache_columns d)
          then Inl (SqlFailure ''no such column'')
          else Inr (d\<lparr>news_cache := Some (filter (\<lambda>r. c_id r \<noteq> ID item) rs @
                  [\<lparr>c_id = ID item, c_title = Title item, c_summary = Summary item,
                    c_content = Content item, c_tags = join '','' (Tags item),
                    c_platforms = join '','' (Platforms item), c_updated_at = Updated item,
                    c_thumbnail_url = ThumbnailURL item, c_fetched_at = t\<rparr>])\<rparr>))"

text \<open>
  \<^verbatim>\<open>parseNewsRows\<close> for one row: tags and platforms are split at commas unless the stored
  string is empty.
\<close>

definition parseNewsRow :: "cache_row \<Rightarrow> NewsItem" where
  "parseNewsRow r =
     \<lparr>ID = c_id r, Title = c_title r, Summary = c_summary r, Content = c_content r,
      Tags = (if c_tags r \<noteq> [] then split_on CHR '','' (c_tags r) else []),
      Platforms = (if c_platforms r \<noteq> [] then split_on CHR '','' (c_platforms r) else []),
      Updated = c_updated_at r, ThumbnailURL = c_thumbnail_url r\<rparr>"

text \<open>\<^verbatim>\<open>SELECT ... FROM news_cache ORDER BY id DESC\<close>, parsed.\<close>

definition sql_select_all_cached :: "database \<Rightarrow> error + NewsItem list" where
  "sql_select_all_cached d =
     (case news_cache d of
        None \<Rightarrow> Inl (SqlFailure ''no such table: news_cache'')
      | Some rs \<Rightarrow>
          if \<not> set cache_select_columns \<subseteq> set (news_cache_columns d)
          then Inl (SqlFailure ''no such column'')
          else Inr (map parseNewsRow (rev (sort_key c_id rs))))"

definition GetAllCachedNews :: "env \<Rightarrow> world \<Rightarrow> (error + NewsItem list) \<times> world" where
  "GetAllCachedNews e w =
     (case query e sql_select_all_cached w of
        (Inl err, w') \<Rightarrow> (Inl (Errorf ''failed to query cached news'' (Some err)), w')
      | (Inr items, w') \<Rightarrow> (Inr items, w'))"

text \<open>
  \<^verbatim>\<open>DELETE FROM news_cache WHERE fetched_at < datetime('now', '-30 days')\<close>, and
  \<^verbatim>\<open>CleanOldCache\<close>.
\<close>

definition sql_delete_old_cache :: "int \<Rightarrow> database \<Rightarrow> error + database" where
  "sql_delete_old_cache t d =
     (case news_cache d of
        None \<Rightarrow> Inl (SqlFailure ''no such table: news_cache'')
      | Some rs \<Rightarrow>
          Inr (d\<lparr>news_cache :=
                 Some (filter (\<lambda>r. \<not> c_fetched_at r < t - 30 * 86400) rs)\<rparr>))"

definition CleanOldCache :: "env \<Rightarrow> world \<Rightarrow> error option \<times> world" where
  "CleanOldCache e w =
     (case exec e (sql_delete_old_cache (now e (clock w))) w of
        (Some err, w') \<Rightarrow> (Some (Errorf ''failed to clean old cache'' (Some err)), w')
      | (None, w') \<Rightarrow> (None, w'))"

text \<open>
  \<^verbatim>\<open>CacheNewsWithOptions\<close>. Without batching every item is tried
  \<^verbatim>\<open>RetryCount + 1\<close> times; with batching all inserts share one transaction.
\<close>

function cache_attempts ::
  "env \<Rightarrow> NewsItem \<Rightarrow> int \<Rightarrow> int \<Rightarrow> error option \<Rightarrow> world \<Rightarrow> error option \<times> world" where
  "cache_attempts e item retryCount attempt err w =
     (if attempt \<le> retryCount then
        (case exec e (sql_replace_cache (now e (clock w)) item) w of
           (None, w') \<Rightarrow> (None, w')
         | (Some err', w') \<Rightarrow> cache_attempts e item retryCount (attempt + 1) (Some err') w')
      else (err, w))"
  by pat_completeness auto
termination
  by (relation "measure (\<lambda>(e, item, retryCount, attempt, err, w). nat (retryCount + 1 - attempt))")
     auto

fun cache_single :: "env \<Rightarrow> DatabaseOptions \<Rightarrow> NewsItem list \<Rightarrow> world \<Rightarrow> error option \<times> world" where
  "cache_single e options [] w = (None, w)"
| "cache_single e options (item # items) w =
     (case cache_attempts e item (RetryCount options) 0 None w of
        (Some err, w') \<Rightarrow>
          if \<not> IgnoreErrors options
          then (Some (Errorf ''failed to cache news item after retries'' (Some err)), w')
          else cache_single e options items w'
      | (None, w') \<Rightarrow> cache_single e options items w')"

fun cache_batch ::
  "env \<Rightarrow> DatabaseOptions \<Rightarrow> NewsItem list \<Rightarrow> database \<Rightarrow> world \<Rightarrow> (error option \<times> database) \<times> world" where
  "cache_batch e options [] tx w = ((None, tx), w)"
| "cache_batch e options (item # items) tx w =
     (case tx_exec e (sql_replace_cache (now e (clock w)) item) tx w of
        ((Some err, tx'), w') \<Rightarrow>
          if \<not> IgnoreErrors options
          then ((Some (Errorf ''failed to cache news item'' (Some err)), tx'), w')
          else cache_batch e options items tx' w'
      | ((None, tx'), w') \<Rightarrow> cache_batch e options items tx' w')"

definition CacheNewsWithOptions ::
  "env \<Rightarrow> NewsItem list \<Rightarrow> DatabaseOptions \<Rightarrow> world \<Rightarrow> error option \<times> world" where
  "CacheNewsWithOptions e news options w =
     (if length news = 0 then (None, w)
      else if \<not> UseBatch options then cache_single e options news w
      else case begin_tx e w of
             (Inl err, w1) \<Rightarrow> (Some (Errorf ''failed to begin transaction'' (Some err)), w1)
           | (Inr tx, w1) \<Rightarrow>
               (case cache_batch e options news tx w1 of
                  ((Some err, _), w2) \<Rightarrow> (Some err, w2)
                | ((None, tx2), w2) \<Rightarrow> commit_tx e tx2 w2))"

definition CacheNews :: "env \<Rightarrow> NewsItem list \<Rightarrow> world \<Rightarrow> error option \<times> world" where
  "CacheNews e news w = CacheNewsWithOptions e news DefaultDatabaseOptions w"

section \<open>Marking many deliveries, and registration\<close>

text \<open>
  \<^verbatim>\<open>MarkMultipleNewsAsPosted\<close>. The two nested loops (articles outside, channels inside)
  visit the pairs of \<open>pairs_of\<close> in this order. Progress logging changes no state.
\<close>

definition pairs_of :: "NewsItem list \<Rightarrow> string list \<Rightarrow> (int \<times> string) list" where
  "pairs_of newsItems channelIDs =
     concat (map (\<lambda>n. map (\<lambda>c. (ID n, c)) channelIDs) newsItems)"

fun mark_single ::
  "env \<Rightarrow> DatabaseOptions \<Rightarrow> (int \<times> string) list \<Rightarrow> world \<Rightarrow> error option \<times> world" where
  "mark_single e options [] w = (None, w)"
| "mark_single e options ((newsID, channelID) # ps) w =
     (case MarkNewsAsPostedWithOptions e newsID channelID options w of
        (Some err, w') \<Rightarrow>
          if \<not> IgnoreErrors options then (Some err, w') else mark_single e options ps w'
      | (None, w') \<Rightarrow> mark_single e options ps w')"

fun mark_batch ::
  "env \<Rightarrow> DatabaseOptions \<Rightarrow> (int \<times> string) list \<Rightarrow> database \<Rightarrow> world \<Rightarrow> (error option \<times> database) \<times> world" where
  "mark_batch e options [] tx w = ((None, tx), w)"
| "mark_batch e options ((newsID, channelID) # ps) tx w =
     (case tx_exec e (sql_insert_posted (now e (clock w)) newsID channelID) tx w of
        ((Some err, tx'), w') \<Rightarrow>
          if \<not> IgnoreErrors options
          then ((Some (Errorf ''failed to mark news as posted to channel'' (Some err)), tx'), w')
          else mark_batch e options ps tx' w'
      | ((None, tx'), w') \<Rightarrow> mark_batch e options ps tx' w')"

definition MarkMultipleNewsAsPosted ::
  "env \<Rightarrow> NewsItem list \<Rightarrow> string list \<Rightarrow> DatabaseOptions \<Rightarrow> world \<Rightarrow> error option \<times> world" where
  "MarkMultipleNewsAsPosted e newsItems channelIDs options w =
     (if \<not> UseBatch options then mark_single e options (pairs_of newsItems channelIDs) w
      else case begin_tx e w of
             (Inl err, w1) \<Rightarrow> (Some (Errorf ''failed to begin transaction'' (Some err)), w1)
           | (Inr tx, w1) \<Rightarrow>
               (case mark_batch e options (pairs_of newsItems channelIDs) tx w1 of
                  ((Some err, _), w2) \<Rightarrow> (Some err, w2)
                | ((None, tx2), w2) \<Rightarrow> commit_tx e tx2 w2))"

text \<open>
  The tail shared by \<^verbatim>\<open>AddChannel\<close> and \<^verbatim>\<open>AddChannelWithEnvironment\<close> (the source
  repeats it in both): for a new channel, every cached article is marked as posted to
  it; a failure to read the cache or to mark is logged, and registration still succeeds.
\<close>

definition mark_existing_for_new ::
  "env \<Rightarrow> bool \<Rightarrow> string \<Rightarrow> world \<Rightarrow> error option \<times> world" where
  "mark_existing_for_new e isNewChannel channelID w =
     (if isNewChannel then
        (case GetAllCachedNews e w of
           (Inl err, w1) \<Rightarrow> (None, w1)
         | (Inr allNews, w1) \<Rightarrow>
             if length allNews > 0 then
               (case MarkMultipleNewsAsPosted e allNews [channelID] BulkDatabaseOptions w1 of
                  (_, w2) \<Rightarrow> (None, w2))
             else (None, w1))
      else (None, w))"

text \<open>
  \<^verbatim>\<open>AddChannel\<close>: the channel is new exactly when the existence query answers
  \<^verbatim>\<open>sql.ErrNoRows\<close>; the row is then written with \<^verbatim>\<open>INSERT OR REPLACE\<close>.
\<close>

definition AddChannel :: "env \<Rightarrow> string \<Rightarrow> world \<Rightarrow> error option \<times> world" where
  "AddChannel e channelID w =
     (case query e (sql_select_channel channelID) w of
        (r, w1) \<Rightarrow>
          let isNewChannel = (r = Inl ErrNoRows) in
          (case exec e (sql_replace_channel (now e (clock w1)) channelID ''PROD'') w1 of
             (Some err, w2) \<Rightarrow> (Some (Errorf ''failed to add channel'' (Some err)), w2)
           | (None, w2) \<Rightarrow> mark_existing_for_new e isNewChannel channelID w2))"

definition AddChannelWithEnvironment ::
  "env \<Rightarrow> string \<Rightarrow> string \<Rightarrow> world \<Rightarrow> error option \<times> world" where
  "AddChannelWithEnvironment e channelID environment w =
     (if environment \<noteq> ''DEV'' \<and> environment \<noteq> ''PROD''
      then (Some (Errorf ''invalid environment value'' None), w)
      else case query e (sql_select_channel channelID) w of
        (r, w1) \<Rightarrow>
          let isNewChannel = (r = Inl ErrNoRows) in
          (case exec e (sql_replace_channel (now e (clock w1)) channelID environment) w1 of
             (Some err, w2) \<Rightarrow> (Some (Errorf ''failed to add channel'' (Some err)), w2)
           | (None, w2) \<Rightarrow> mark_existing_for_new e isNewChannel channelID w2))"


section \<open>Schema creation and migration\<close>



definition channels_schema_columns :: "string list" where
  "channels_schema_columns = [''id'', ''platforms'', ''environment'', ''created_at'', ''updated_at'']"


definition new_posted_table :: posted_table where
  "new_posted_table = \<lparr>key_schema = CompositeUnique, has_posted_at = True, prows = []\<rparr>"



























section \<open>More strings\<close>

text \<open>
  Strings are byte strings, as in Go. \<^verbatim>\<open>strings.ToLower\<close> and \<^verbatim>\<open>strings.Fields\<close> are
  modelled on ASCII: bytes outside \<^verbatim>\<open>A-Z\<close> are kept, and white space is one of the six
  ASCII white-space bytes.
\<close>

definition lower_char :: "char \<Rightarrow> char" where
  "lower_char c =
     (let n = (of_char c :: nat) in if 65 \<le> n \<and> n \<le> 90 then char_of (n + 32) else c)"

definition ToLower :: "string \<Rightarrow> string" where
  "ToLower s = map lower_char s"

definition is_space :: "char \<Rightarrow> bool" where
  "is_space c = ((of_char c :: nat) \<in> {9, 10, 11, 12, 13, 32})"

fun fields_from :: "string \<Rightarrow> string \<Rightarrow> string list" where
  "fields_from cur [] = (if cur = [] then [] else [cur])"
| "fields_from cur (c # cs) =
     (if is_space c then (if cur = [] then fields_from [] cs else cur # fields_from [] cs)
      else fields_from (cur @ [c]) cs)"

definition Fields :: "string \<Rightarrow> string list" where
  "Fields s = fields_from [] s"

text \<open>\<^verbatim>\<open>strings.Contains\<close>.\<close>

fun Contains :: "string \<Rightarrow> string \<Rightarrow> bool" where
  "Contains [] substr = (substr = [])"
| "Contains (c # cs) substr = (take (length substr) (c # cs) = substr \<or> Contains cs substr)"

text \<open>\<^verbatim>\<open>fmt.Sprintf("%d", n)\<close>.\<close>

fun digits :: "nat \<Rightarrow> string" where
  "digits n = (if n < 10 then [char_of (48 + n)] else digits (n div 10) @ [char_of (48 + n mod 10)])"

definition itoa :: "int \<Rightarrow> string" where
  "itoa n = (if n < 0 then CHR ''-'' # digits (nat (- n)) else digits (nat n))"

section \<open>The chat side\<close>

text \<open>
  \<^verbatim>\<open>formatNewsForDiscord\<close>. The title is copied. A summary longer than 2048 bytes is cut
  to 2045 bytes and three dots; the inner test \<^verbatim>\<open>len(summary) <= 3\<close> is in the source.
\<close>

definition formatNewsForDiscord :: "env \<Rightarrow> NewsItem \<Rightarrow> MessageEmbed" where
  "formatNewsForDiscord e newsItem =
     (let summary = Summary newsItem;
          summary =
            (if length summary > 2048 then
               (if length summary \<le> 3 then take 2048 summary
                else take 2045 summary @ ''...'')
             else summary)
      in \<lparr>EmbedTitle = Title newsItem,
          EmbedDescription = summary,
          EmbedURL = ''https://playstartrekonline.com/en/news/article/'' @ itoa (ID newsItem),
          EmbedColor = 65280,
          EmbedTimestamp = time_format e ''2006-01-02T15:04:05Z07:00'' (Updated newsItem),
          EmbedFooter = ''Platforms: '' @ join '', '' (Platforms newsItem),
          EmbedFields =
            [\<lparr>FieldName = ''Tags'', FieldValue = join '', '' (Tags newsItem), FieldInline = True\<rparr>,
             \<lparr>FieldName = ''Platforms'', FieldValue = join '', '' (Platforms newsItem),
              FieldInline = True\<rparr>],
          EmbedThumbnail =
            (if ThumbnailURL newsItem \<noteq> [] then Some (ThumbnailURL newsItem) else None)\<rparr>)"

text \<open>
  The sibling in package \<^verbatim>\<open>discord\<close>, used for command replies: \<^verbatim>\<open>TruncateText\<close> and
  \<^verbatim>\<open>formatNewsEmbed\<close>.
\<close>

definition TruncateText :: "string \<Rightarrow> int \<Rightarrow> string" where
  "TruncateText text maxLength =
     (if int (length text) \<le> maxLength then text
      else if maxLength \<le> 3 then replicate (nat maxLength) CHR ''.''
      else take (nat (maxLength - 3)) text @ ''...'')"

definition formatNewsEmbed :: "env \<Rightarrow> NewsItem \<Rightarrow> MessageEmbed" where
  "formatNewsEmbed e newsItem =
     \<lparr>EmbedTitle = TruncateText (Title newsItem) 256,
      EmbedDescription = TruncateText (Summary newsItem) 2048,
      EmbedURL = ''https://playstartrekonline.com/en/news/article/'' @ itoa (ID newsItem),
      EmbedColor = 65280,
      EmbedTimestamp = time_format e ''2006-01-02T15:04:05Z'' (Updated newsItem),
      EmbedFooter = ''Platforms: '' @ join '', '' (Platforms newsItem),
      EmbedFields =
        [\<lparr>FieldName = ''Tags'', FieldValue = join '', '' (Tags newsItem), FieldInline = True\<rparr>,
         \<lparr>FieldName = ''Platforms'', FieldValue = join '', '' (Platforms newsItem),
          FieldInline = True\<rparr>],
      EmbedThumbnail =
        (if ThumbnailURL newsItem \<noteq> [] then Some (ThumbnailURL newsItem) else None)\<rparr>"

text \<open>
  \<^verbatim>\<open>PostNewsToChannel\<close>: the embed is sent; a post that the chat service accepts is
  logged in \<open>posts\<close>.
\<close>

definition PostNewsToChannel :: "env \<Rightarrow> string \<Rightarrow> NewsItem \<Rightarrow> world \<Rightarrow> error option \<times> world" where
  "PostNewsToChannel e channelID newsItem w =
     (case chat_send e (clock w) channelID (formatNewsForDiscord e newsItem) of
        Some err \<Rightarrow> (Some err, advance w)
      | None \<Rightarrow> (None, advance (w\<lparr>posts := (channelID, newsItem) # posts w\<rparr>)))"

text \<open>
  \<^verbatim>\<open>IsDuplicateInRecentMessages\<close>. The text of a message is its lowercased content
  followed, for every embed, by a space and the lowercased title and by a space and the
  lowercased description, each when not empty.
\<close>

fun embeds_text :: "MessageEmbed list \<Rightarrow> string" where
  "embeds_text [] = []"
| "embeds_text (emb # embs) =
     (if EmbedTitle emb \<noteq> [] then '' '' @ ToLower (EmbedTitle emb) else []) @
     (if EmbedDescription emb \<noteq> [] then '' '' @ ToLower (EmbedDescription emb) else []) @
     embeds_text embs"

definition message_text :: "chat_message \<Rightarrow> string" where
  "message_text message = ToLower (msg_content message) @ embeds_text (msg_embeds message)"

fun match_count :: "string \<Rightarrow> string list \<Rightarrow> nat" where
  "match_count messageText [] = 0"
| "match_count messageText (word # titleWords) =
     (if length word > 3 \<and> Contains messageText word
      then Suc (match_count messageText titleWords)
      else match_count messageText titleWords)"

fun scan_messages :: "string \<Rightarrow> string list \<Rightarrow> chat_message list \<Rightarrow> bool" where
  "scan_messages self titleWords [] = False"
| "scan_messages self titleWords (message # messages) =
     (if msg_author message \<noteq> self then scan_messages self titleWords messages
      else let matchCount = match_count (message_text message) titleWords in
           if matchCount > length titleWords div 2 \<and> matchCount \<ge> 2 then True
           else scan_messages self titleWords messages)"

definition IsDuplicateInRecentMessages ::
  "env \<Rightarrow> int \<Rightarrow> string \<Rightarrow> NewsItem \<Rightarrow> world \<Rightarrow> bool \<times> world" where
  "IsDuplicateInRecentMessages e msgCount channelID newsItem w =
     (case chat_messages e (clock w) channelID msgCount of
        Inl err \<Rightarrow> (False, advance w)
      | Inr messages \<Rightarrow>
          (let titleWords = Fields (ToLower (Title newsItem)) in
           if length titleWords = 0 then (False, advance w)
           else (scan_messages (self_user e) titleWords messages, advance w)))"


section \<open>Decoding an article\<close>

text \<open>
  \<^verbatim>\<open>strconv.ParseInt(s, 10, 64)\<close>: an optional sign, at least one decimal digit, nothing
  else, and a value inside the range of \<^verbatim>\<open>int64\<close>; anything else is an error.
\<close>

definition digit_of :: "char \<Rightarrow> nat option" where
  "digit_of c =
     (let n = (of_char c :: nat) in if 48 \<le> n \<and> n \<le> 57 then Some (n - 48) else None)"

fun parse_digits :: "nat \<Rightarrow> string \<Rightarrow> nat option" where
  "parse_digits acc [] = Some acc"
| "parse_digits acc (c # cs) =
     (case digit_of c of None \<Rightarrow> None | Some d \<Rightarrow> parse_digits (10 * acc + d) cs)"

definition ParseInt :: "string \<Rightarrow> int option" where
  "ParseInt s =
     (case s of
        [] \<Rightarrow> None
      | c # cs \<Rightarrow>
          let neg = (c = CHR ''-'');
              ds = (if c = CHR ''-'' \<or> c = CHR ''+'' then cs else s)
          in if ds = [] then None
             else (case parse_digits 0 ds of
                     None \<Rightarrow> None
                   | Some n \<Rightarrow>
                       let v = (if neg then - int n else int n)
                       in if - (2 ^ 63) \<le> v \<and> v < 2 ^ 63 then Some v else None))"

text \<open>
  The conversion \<^verbatim>\<open>int64(v)\<close> of a \<^verbatim>\<open>float64\<close>: the fraction is dropped. Outside the range
  of \<^verbatim>\<open>int64\<close> Go leaves the result to the implementation; the value here is the one of
  the amd64 compiler.
\<close>

definition int64_of_float :: "rat \<Rightarrow> int" where
  "int64_of_float v =
     (let n = (if v < 0 then \<lceil>v\<rceil> else \<lfloor>v\<rfloor>)
      in if - (2 ^ 63) \<le> n \<and> n < 2 ^ 63 then n else - (2 ^ 63))"

text \<open>The zero \<^verbatim>\<open>time.Time\<close> (January 1 of year 1, UTC) in seconds, and the zero article.\<close>

definition zero_time :: int where
  "zero_time = - 62135596800"

definition zero_item :: NewsItem where
  "zero_item =
     \<lparr>ID = 0, Title = [], Summary = [], Content = [], Tags = [], Platforms = [],
      Updated = zero_time, ThumbnailURL = []\<rparr>"

text \<open>
  The field decoding of \<^verbatim>\<open>json.Unmarshal\<close> into the auxiliary struct: a missing key or
  \<^verbatim>\<open>null\<close> leaves the zero value; a value of the wrong JSON type is an error. When a key
  is repeated the last value counts.
\<close>

definition lookup :: "(string \<times> json) list \<Rightarrow> string \<Rightarrow> json" where
  "lookup obj key = (case map_of (rev obj) key of None \<Rightarrow> JNull | Some v \<Rightarrow> v)"

definition string_field :: "json \<Rightarrow> error + string" where
  "string_field v =
     (case v of JNull \<Rightarrow> Inr [] | JString s \<Rightarrow> Inr s
      | _ \<Rightarrow> Inl (JsonFailure ''cannot unmarshal into string''))"

fun string_elements :: "json list \<Rightarrow> error + string list" where
  "string_elements [] = Inr []"
| "string_elements (v # vs) =
     (case string_field v of
        Inl err \<Rightarrow> Inl err
      | Inr s \<Rightarrow> (case string_elements vs of Inl err \<Rightarrow> Inl err | Inr ss \<Rightarrow> Inr (s # ss)))"

definition strings_field :: "json \<Rightarrow> error + string list" where
  "strings_field v =
     (case v of JNull \<Rightarrow> Inr [] | JArray vs \<Rightarrow> string_elements vs
      | _ \<Rightarrow> Inl (JsonFailure ''cannot unmarshal into []string''))"

definition map_field :: "json \<Rightarrow> error + (string \<times> json) list option" where
  "map_field v =
     (case v of JNull \<Rightarrow> Inr None | JObject kvs \<Rightarrow> Inr (Some kvs)
      | _ \<Rightarrow> Inl (JsonFailure ''cannot unmarshal into map''))"

text \<open>
  The \<^verbatim>\<open>switch\<close> on the decoded id: a string is parsed, and kept only when it parses; a
  number is converted; any other value leaves the id as it was. (The case \<^verbatim>\<open>int64\<close> of
  the source matches no value that \<^verbatim>\<open>encoding/json\<close> produces.)
\<close>

definition decode_id :: "json \<Rightarrow> int \<Rightarrow> int" where
  "decode_id v old =
     (case v of
        JString s \<Rightarrow> (case ParseInt s of Some n \<Rightarrow> n | None \<Rightarrow> old)
      | JNumber x \<Rightarrow> int64_of_float x
      | _ \<Rightarrow> old)"

text \<open>The four layouts, tried in order; the first that parses wins.\<close>

definition time_formats :: "string list" where
  "time_formats =
     [''2006-01-02T15:04:05Z07:00'', ''2006-01-02T15:04:05Z'', ''2006-01-02 15:04:05'',
      ''2006-01-02T15:04:05'']"

fun first_parse :: "env \<Rightarrow> string list \<Rightarrow> string \<Rightarrow> int option" where
  "first_parse e [] s = None"
| "first_parse e (format # formats) s =
     (case time_parse e format s of Some t \<Rightarrow> Some t | None \<Rightarrow> first_parse e formats s)"

definition decode_updated :: "env \<Rightarrow> string \<Rightarrow> int \<Rightarrow> int" where
  "decode_updated e s old =
     (if s \<noteq> [] then (case first_parse e time_formats s of Some t \<Rightarrow> t | None \<Rightarrow> old)
      else old)"

text \<open>The thumbnail: the first of the four keys whose value is an object with a string \<^verbatim>\<open>url\<close>.\<close>

definition thumbnailFields :: "string list" where
  "thumbnailFields =
     [''img_microsite_thumbnail'', ''thumbnail'', ''img_microsite_background'', ''unhighlight_img'']"

fun first_thumbnail :: "(string \<times> json) list \<Rightarrow> string list \<Rightarrow> string option" where
  "first_thumbnail images [] = None"
| "first_thumbnail images (field # rest) =
     (case lookup images field of
        JObject thumbnail \<Rightarrow>
          (case lookup thumbnail ''url'' of
             JString url \<Rightarrow> Some url
           | _ \<Rightarrow> first_thumbnail images rest)
      | _ \<Rightarrow> first_thumbnail images rest)"

text \<open>
  \<^verbatim>\<open>NewsItem.UnmarshalJSON\<close> on a fresh article. The only error it returns is the one of
  \<^verbatim>\<open>json.Unmarshal\<close>; an id or a time stamp that cannot be read is no error.
\<close>

definition UnmarshalJSON :: "env \<Rightarrow> json \<Rightarrow> error + NewsItem" where
  "UnmarshalJSON e data =
     (case data of
        JNull \<Rightarrow> Inr zero_item
      | JObject obj \<Rightarrow>
          (case (string_field (lookup obj ''updated''), string_field (lookup obj ''title''),
                 string_field (lookup obj ''summary''), string_field (lookup obj ''content''),
                 strings_field (lookup obj ''tags''), strings_field (lookup obj ''platforms''),
                 string_field (lookup obj ''thumbnail_url''), map_field (lookup obj ''images'')) of
             (Inr updated, Inr title, Inr summary, Inr content, Inr tags, Inr platforms,
              Inr thumbnail_url, Inr images) \<Rightarrow>
               Inr \<lparr>ID = decode_id (lookup obj ''id'') 0,
                    Title = title, Summary = summary, Content = content, Tags = tags,
                    Platforms = platforms,
                    Updated = decode_updated e updated zero_time,
                    ThumbnailURL =
                      (case images of
                         None \<Rightarrow> thumbnail_url
                       | Some m \<Rightarrow>
                           (case first_thumbnail m thumbnailFields of
                              Some url \<Rightarrow> url
                            | None \<Rightarrow> thumbnail_url))\<rparr>
           | _ \<Rightarrow> Inl (JsonFailure ''cannot unmarshal news item''))
      | _ \<Rightarrow> Inl (JsonFailure ''cannot unmarshal news item''))"

text \<open>
  Decoding the response \<^verbatim>\<open>{"news": [...]}\<close>: every element goes through
  \<^verbatim>\<open>UnmarshalJSON\<close>, and the first error fails the whole response. No element is skipped.
\<close>

fun decode_items :: "env \<Rightarrow> json list \<Rightarrow> error + NewsItem list" where
  "decode_items e [] = Inr []"
| "decode_items e (v # vs) =
     (case UnmarshalJSON e v of
        Inl err \<Rightarrow> Inl err
      | Inr item \<Rightarrow>
          (case decode_items e vs of Inl err \<Rightarrow> Inl err | Inr items \<Rightarrow> Inr (item # items)))"

definition decode_response :: "env \<Rightarrow> json option \<Rightarrow> error + NewsItem list" where
  "decode_response e body =
     (case body of
        None \<Rightarrow> Inl (JsonFailure ''invalid character'')
      | Some JNull \<Rightarrow> Inr []
      | Some (JObject obj) \<Rightarrow>
          (case lookup obj ''news'' of
             JNull \<Rightarrow> Inr []
           | JArray vs \<Rightarrow> decode_items e vs
           | _ \<Rightarrow> Inl (JsonFailure ''cannot unmarshal into []NewsItem''))
      | Some _ \<Rightarrow> Inl (JsonFailure ''cannot unmarshal into NewsResponse''))"

section \<open>Fetching\<close>

record FetchOptions =
  EnablePagination :: bool
  PageLimit :: int
  ItemLimit :: int

text \<open>\<^verbatim>\<open>DefaultFetchOptions\<close> and \<^verbatim>\<open>BulkFetchOptions\<close> of package \<^verbatim>\<open>news\<close>.\<close>

definition DefaultFetchOptions :: FetchOptions where
  "DefaultFetchOptions = \<lparr>EnablePagination = False, PageLimit = 0, ItemLimit = 100\<rparr>"

definition BulkFetchOptions :: FetchOptions where
  "BulkFetchOptions = \<lparr>EnablePagination = True, PageLimit = 0, ItemLimit = 100\<rparr>"

definition buildNewsURL :: "string \<Rightarrow> int \<Rightarrow> int \<Rightarrow> string \<Rightarrow> string list \<Rightarrow> news_request" where
  "buildNewsURL tag limit offset platform fieldNames =
     \<lparr>q_tag = (if tag \<noteq> [] then Some tag else None),
      q_limit = (if limit > 0 then Some limit else None),
      q_offset = (if offset > 0 then Some offset else None),
      q_fields = fieldNames,
      q_platform = (if platform \<noteq> [] then Some platform else None)\<rparr>"

definition news_fields :: "string list" where
  "news_fields =
     [''id'', ''title'', ''summary'', ''tags'', ''platforms'', ''updated'', ''images'', ''content'']"

text \<open>\<^verbatim>\<open>processNewsItemTags\<close> and \<^verbatim>\<open>cleanNewsItemContent\<close>.\<close>

definition processNewsItemTags :: "NewsItem list \<Rightarrow> string \<Rightarrow> NewsItem list" where
  "processNewsItemTags newsItems requestedTag =
     map (\<lambda>item. if requestedTag \<notin> set (Tags item) \<and> requestedTag \<noteq> []
                  then item\<lparr>Tags := Tags item @ [requestedTag]\<rparr> else item) newsItems"

definition cleanNewsItemContent :: "env \<Rightarrow> NewsItem list \<Rightarrow> NewsItem list" where
  "cleanNewsItemContent e newsItems =
     map (\<lambda>item. if Content item \<noteq> [] then item\<lparr>Content := extract_text e (Content item)\<rparr>
                  else item) newsItems"

text \<open>
  One request of \<^verbatim>\<open>FetchNews\<close>: the GET, the status check, the decoding, and the two
  passes over the items. Any failure is an error of the whole call.
\<close>

definition fetch_page ::
  "env \<Rightarrow> string \<Rightarrow> int \<Rightarrow> int \<Rightarrow> world \<Rightarrow> (error + NewsItem list) \<times> world" where
  "fetch_page e tag limit offset w =
     (case http_get e (clock w) (buildNewsURL tag limit offset [] news_fields) of
        GetFailed \<Rightarrow> (Inl (Errorf ''failed to fetch news'' (Some (HttpFailure ''get''))), advance w)
      | Reply status body \<Rightarrow>
          if status \<noteq> 200 then (Inl (Errorf ''API returned status'' None), advance w)
          else (case decode_response e body of
                  Inl err \<Rightarrow> (Inl (Errorf ''failed to decode news response'' (Some err)), advance w)
                | Inr news \<Rightarrow>
                    (Inr (cleanNewsItemContent e (processNewsItemTags news tag)), advance w)))"

text \<open>
  The pagination loop of \<^verbatim>\<open>FetchNews\<close>: \<^verbatim>\<open>for len(allNews) < count\<close>, asking for
  \<^verbatim>\<open>min(itemLimit, remaining)\<close> items at \<^verbatim>\<open>offset\<close>, leaving at an error or at an empty
  page. A page that is not empty makes \<open>allNews\<close> longer, which is the measure.
\<close>

function paginate ::
  "env \<Rightarrow> string \<Rightarrow> int \<Rightarrow> int \<Rightarrow> NewsItem list \<Rightarrow> int \<Rightarrow> world \<Rightarrow> (error + NewsItem list) \<times> world" where
  "paginate e tag count itemLimit allNews offset w =
     (if int (length allNews) < count then
        (let remaining = count - int (length allNews);
             limit = (if remaining < itemLimit then remaining else itemLimit)
         in case fetch_page e tag limit offset w of
              (Inl err, w') \<Rightarrow> (Inl err, w')
            | (Inr news, w') \<Rightarrow>
                if length news = 0 then (Inr (allNews @ news), w')
                else paginate e tag count itemLimit (allNews @ news) (offset + int (length news)) w')
      else (Inr allNews, w))"
  by pat_completeness auto
termination
  by (relation "measure (\<lambda>(e, tag, count, itemLimit, allNews, offset, w). nat (count - int (length allNews)))")
     auto

definition FetchNews ::
  "env \<Rightarrow> string \<Rightarrow> int \<Rightarrow> FetchOptions \<Rightarrow> world \<Rightarrow> (error + NewsItem list) \<times> world" where
  "FetchNews e tag count options w =
     (if \<not> EnablePagination options \<or> count \<le> ItemLimit options
      then fetch_page e tag count 0 w
      else paginate e tag count (ItemLimit options) [] 0 w)"


section \<open>The delivery engine\<close>

text \<open>\<^verbatim>\<open>types.Config\<close>, with the options the engine reads.\<close>

record Config =
  PollPeriod :: int
  PollCount :: int
  FreshSeconds :: int
  MsgCount :: int
  Environment :: string

text \<open>
  \<^verbatim>\<open>filterNewsByPlatforms\<close>: with no platforms everything passes; otherwise an article
  passes when one of its platforms, lowercased, is among the lowercased platforms.
\<close>

definition filterNewsByPlatforms :: "NewsItem list \<Rightarrow> string list \<Rightarrow> NewsItem list" where
  "filterNewsByPlatforms news platforms =
     (if length platforms = 0 then news
      else filter (\<lambda>item. \<exists>itemPlatform \<in> set (Platforms item).
                     ToLower itemPlatform \<in> set (map ToLower platforms)) news)"

text \<open>
  The loop at the end of \<^verbatim>\<open>ProcessChannelNews\<close>: an article is skipped when the ledger
  cannot be read or has it; a failed post is skipped; after a successful post the ledger
  is written, and a failure of that write is only logged.
\<close>

fun post_unposted :: "env \<Rightarrow> string \<Rightarrow> NewsItem list \<Rightarrow> world \<Rightarrow> world" where
  "post_unposted e channelID [] w = w"
| "post_unposted e channelID (newsItem # newsItems) w =
     (case IsNewsPosted e (ID newsItem) channelID w of
        (Inl err, w1) \<Rightarrow> post_unposted e channelID newsItems w1
      | (Inr True, w1) \<Rightarrow> post_unposted e channelID newsItems w1
      | (Inr False, w1) \<Rightarrow>
          (case PostNewsToChannel e channelID newsItem w1 of
             (Some err, w2) \<Rightarrow> post_unposted e channelID newsItems w2
           | (None, w2) \<Rightarrow>
               (case MarkNewsAsPosted e (ID newsItem) channelID w2 of
                  (_, w3) \<Rightarrow> post_unposted e channelID newsItems w3)))"

text \<open>\<^verbatim>\<open>ProcessChannelNews\<close>.\<close>

definition ProcessChannelNews :: "env \<Rightarrow> Config \<Rightarrow> string \<Rightarrow> world \<Rightarrow> world" where
  "ProcessChannelNews e config channelID w =
     (case (if Environment config \<noteq> [] then
              (case GetChannelEnvironment e channelID w of
                 (Inl err, w0) \<Rightarrow> (False, w0)
               | (Inr channelEnv, w0) \<Rightarrow> (channelEnv = Environment config, w0))
            else (True, w)) of
        (False, w0) \<Rightarrow> w0
      | (True, w0) \<Rightarrow>
          (case GetChannelPlatforms e channelID w0 of
             (Inl err, w1) \<Rightarrow> w1
           | (Inr platforms, w1) \<Rightarrow>
               if length platforms = 0 then w1
               else (case FetchNews e [] (PollCount config) DefaultFetchOptions w1 of
                       (Inl err, w2) \<Rightarrow> w2
                     | (Inr newsItems, w2) \<Rightarrow>
                         (case CacheNews e newsItems w2 of
                            (_, w3) \<Rightarrow> post_unposted e channelID newsItems w3))))"

text \<open>
  One iteration of \<^verbatim>\<open>NewsPoller\<close>. The source starts one goroutine per channel; here
  the channels are processed one after the other, in the order of the query.
\<close>

fun process_channels :: "env \<Rightarrow> Config \<Rightarrow> string list \<Rightarrow> world \<Rightarrow> world" where
  "process_channels e config [] w = w"
| "process_channels e config (channelID # channelIDs) w =
     process_channels e config channelIDs (ProcessChannelNews e config channelID w)"

definition poller_tick :: "env \<Rightarrow> Config \<Rightarrow> world \<Rightarrow> world" where
  "poller_tick e config w =
     (case (if Environment config \<noteq> [] then GetChannelsByEnvironment e (Environment config) w
            else GetRegisteredChannels e w) of
        (Inl err, w1) \<Rightarrow> w1
      | (Inr channelIDs, w1) \<Rightarrow>
          if length channelIDs = 0 then w1
          else (case CleanOldCache e (process_channels e config channelIDs w1) of
                  (_, w2) \<Rightarrow> w2))"

text \<open>
  \<^verbatim>\<open>CatchUpUnpostedNews\<close>: for each tag, for each channel, for each article that passes
  the platform filter.
\<close>

fun catchup_items :: "env \<Rightarrow> Config \<Rightarrow> string \<Rightarrow> int \<Rightarrow> NewsItem list \<Rightarrow> world \<Rightarrow> world" where
  "catchup_items e config channelID cutoff [] w = w"
| "catchup_items e config channelID cutoff (newsItem # filteredNews) w =
     (if Updated newsItem < cutoff then catchup_items e config channelID cutoff filteredNews w
      else case IsNewsPosted e (ID newsItem) channelID w of
        (Inl err, w1) \<Rightarrow> catchup_items e config channelID cutoff filteredNews w1
      | (Inr True, w1) \<Rightarrow> catchup_items e config channelID cutoff filteredNews w1
      | (Inr False, w1) \<Rightarrow>
          (case IsDuplicateInRecentMessages e (MsgCount config) channelID newsItem w1 of
             (True, w2) \<Rightarrow> catchup_items e config channelID cutoff filteredNews w2
           | (False, w2) \<Rightarrow>
               (case PostNewsToChannel e channelID newsItem w2 of
                  (Some err, w3) \<Rightarrow> catchup_items e config channelID cutoff filteredNews w3
                | (None, w3) \<Rightarrow>
                    (case MarkNewsAsPosted e (ID newsItem) channelID w3 of
                       (_, w4) \<Rightarrow> catchup_items e config channelID cutoff filteredNews w4))))"

fun catchup_channels :: "env \<Rightarrow> Config \<Rightarrow> int \<Rightarrow> NewsItem list \<Rightarrow> string list \<Rightarrow> world \<Rightarrow> world" where
  "catchup_channels e config cutoff newsItems [] w = w"
| "catchup_channels e config cutoff newsItems (channelID # channelIDs) w =
     (case GetChannelPlatforms e channelID w of
        (Inl err, w1) \<Rightarrow> catchup_channels e config cutoff newsItems channelIDs w1
      | (Inr platforms, w1) \<Rightarrow>
          catchup_channels e config cutoff newsItems channelIDs
            (catchup_items e config channelID cutoff
               (filterNewsByPlatforms newsItems platforms) w1))"

fun catchup_tags :: "env \<Rightarrow> Config \<Rightarrow> int \<Rightarrow> string list \<Rightarrow> string list \<Rightarrow> world \<Rightarrow> world" where
  "catchup_tags e config cutoff channelIDs [] w = w"
| "catchup_tags e config cutoff channelIDs (tag # tags) w =
     (case FetchNews e tag (PollCount config * 10) BulkFetchOptions w of
        (Inl err, w1) \<Rightarrow> catchup_tags e config cutoff channelIDs tags w1
      | (Inr newsItems, w1) \<Rightarrow>
          catchup_tags e config cutoff channelIDs tags
            (catchup_channels e config cutoff newsItems channelIDs w1))"

definition CatchUpUnpostedNews :: "env \<Rightarrow> Config \<Rightarrow> int \<Rightarrow> world \<Rightarrow> world" where
  "CatchUpUnpostedNews e config days w =
     (case GetRegisteredChannels e w of
        (Inl err, w1) \<Rightarrow> w1
      | (Inr channelIDs, w1) \<Rightarrow>
          if length channelIDs = 0 then w1
          else catchup_tags e config (now e (clock w1) - days * 24 * 3600) channelIDs
                 [''star-trek-online'', ''patch-notes''] w1)"

text \<open>A run of the engine: poller ticks and catch-up runs in any order.\<close>

datatype operation = Tick | CatchUp int

fun run_engine :: "env \<Rightarrow> Config \<Rightarrow> operation list \<Rightarrow> world \<Rightarrow> world" where
  "run_engine e config [] w = w"
| "run_engine e config (Tick # ops) w = run_engine e config ops (poller_tick e config w)"
| "run_engine e config (CatchUp days # ops) w =
     run_engine e config ops (CatchUpUnpostedNews e config days w)"

section \<open>Properties: vocabulary\<close>

text \<open>A schedule in which the database driver fails no call.\<close>

definition no_db_faults :: "env \<Rightarrow> bool" where
  "no_db_faults e = (\<forall>n. \<not> db_fault e n)"

text \<open>The pairs of a delivery table, and the number of rows it holds for one pair.\<close>

definition deliveries :: "posted_table \<Rightarrow> (int \<times> string) list" where
  "deliveries t = map (\<lambda>r. (news_id r, channel_id r)) (prows t)"

definition count_pair :: "posted_table \<Rightarrow> int \<Rightarrow> string \<Rightarrow> nat" where
  "count_pair t newsID channelID =
     length (filter (\<lambda>r. news_id r = newsID \<and> channel_id r = channelID) (prows t))"

text \<open>What \<^verbatim>\<open>UNIQUE(news_id, channel_id)\<close> says of the rows.\<close>

definition ledger_unique :: "posted_table \<Rightarrow> bool" where
  "ledger_unique t = distinct (map (\<lambda>r. (news_id r, channel_id r)) (prows t))"

text \<open>\<^verbatim>\<open>MarkNewsAsPostedWithOptions\<close> called \<open>k\<close> times in a row, with the result of each call.\<close>

fun mark_times ::
  "env \<Rightarrow> nat \<Rightarrow> int \<Rightarrow> string \<Rightarrow> DatabaseOptions \<Rightarrow> world \<Rightarrow> error option list \<times> world" where
  "mark_times e 0 newsID channelID options w = ([], w)"
| "mark_times e (Suc k) newsID channelID options w =
     (case MarkNewsAsPostedWithOptions e newsID channelID options w of
        (r, w') \<Rightarrow> (case mark_times e k newsID channelID options w' of
                     (rs, w'') \<Rightarrow> (r # rs, w'')))"

text \<open>
  The layout \<^verbatim>\<open>initDatabase\<close> leaves behind: the three tables with the columns the
  statements name, and the delivery table in its current shape.
\<close>

definition initialised :: "database \<Rightarrow> bool" where
  "initialised d =
     (channels d \<noteq> None
      \<and> set channels_schema_columns \<subseteq> set (channels_columns d)
      \<and> (case posted_news d of
            None \<Rightarrow> False
          | Some t \<Rightarrow> key_schema t = CompositeUnique \<and> has_posted_at t)
      \<and> news_cache d \<noteq> None
      \<and> set cache_insert_columns \<subseteq> set (news_cache_columns d))"




section \<open>Properties: concrete databases and schedules\<close>

text \<open>A schedule without failures, an upstream with no news, a silent chat service.\<close>

definition env_quiet :: env where
  "env_quiet =
     \<lparr>db_fault = (\<lambda>n. False), now = (\<lambda>n. 1000 + int n),
      http_get = (\<lambda>n request. Reply 200 (Some (JObject [(''news'', JArray [])]))),
      chat_send = (\<lambda>n channelID emb. None),
      chat_messages = (\<lambda>n channelID limit. Inr []),
      self_user = ''bot'',
      time_parse = (\<lambda>layout s. None), time_format = (\<lambda>layout t. []),
      extract_text = (\<lambda>s. s)\<rparr>"

text \<open>The same schedule, except that the database call number \<open>k\<close> fails.\<close>

definition env_fault_at :: "nat \<Rightarrow> env" where
  "env_fault_at k = env_quiet\<lparr>db_fault := (\<lambda>n. n = k)\<rparr>"

text \<open>A new, empty database file, and the file after \<^verbatim>\<open>initDatabase\<close>.\<close>

definition db_new :: database where
  "db_new =
     \<lparr>channels = None, channels_columns = [], posted_news = None, posted_news_backup = None,
      news_cache = None, news_cache_columns = [], indexes = []\<rparr>"

definition db_ready :: database where
  "db_ready =
     \<lparr>channels = Some [], channels_columns = channels_schema_columns,
      posted_news = Some new_posted_table, posted_news_backup = None,
      news_cache = Some [], news_cache_columns = cache_insert_columns,
      indexes = [''idx_posted_news_channel'', ''idx_posted_news_id'', ''idx_news_cache_tags'',
                 ''idx_news_cache_updated'']\<rparr>"

definition world_ready :: world where
  "world_ready = \<lparr>db = db_ready, posts = [], clock = 0\<rparr>"

text \<open>
  A database in use: two subscriptions, three cached articles, three deliveries.
\<close>

definition cached :: "int \<Rightarrow> string \<Rightarrow> cache_row" where
  "cached n title =
     \<lparr>c_id = n, c_title = title, c_summary = [], c_content = [], c_tags = [],
      c_platforms = ''pc'', c_updated_at = 900, c_thumbnail_url = [], c_fetched_at = 950\<rparr>"

definition db_busy :: database where
  "db_busy =
     db_ready\<lparr>
       channels := Some
         [\<lparr>ch_id = ''CH1'', ch_platforms = ''pc'', ch_environment = ''DEV'',
           ch_created_at = 1, ch_updated_at = 1\<rparr>,
          \<lparr>ch_id = ''CH2'', ch_platforms = ''xbox,ps'', ch_environment = ''PROD'',
           ch_created_at = 2, ch_updated_at = 2\<rparr>],
       posted_news := Some (new_posted_table\<lparr>prows :=
         [\<lparr>news_id = 101, channel_id = ''CH1'', posted_at = Some 10\<rparr>,
          \<lparr>news_id = 101, channel_id = ''CH2'', posted_at = Some 11\<rparr>,
          \<lparr>news_id = 102, channel_id = ''CH1'', posted_at = Some 12\<rparr>]\<rparr>),
       news_cache := Some [cached 101 ''One'', cached 102 ''Two'', cached 103 ''Three'']\<rparr>"

definition world_busy :: world where
  "world_busy = \<lparr>db = db_busy, posts = [], clock = 0\<rparr>"




section \<open>Properties: the specification's words, and more concrete inputs\<close>







text \<open>
  The fields of an article other than the id have the JSON types the decoder expects
  (\<^verbatim>\<open>null\<close> and a missing key included).
\<close>

definition fields_well_typed :: "(string \<times> json) list \<Rightarrow> bool" where
  "fields_well_typed obj =
     (\<not> isl (string_field (lookup obj ''updated'')) \<and> \<not> isl (string_field (lookup obj ''title''))
      \<and> \<not> isl (string_field (lookup obj ''summary'')) \<and> \<not> isl (string_field (lookup obj ''content''))
      \<and> \<not> isl (strings_field (lookup obj ''tags'')) \<and> \<not> isl (strings_field (lookup obj ''platforms''))
      \<and> \<not> isl (string_field (lookup obj ''thumbnail_url''))
      \<and> \<not> isl (map_field (lookup obj ''images'')))"

definition well_typed_article :: "json \<Rightarrow> bool" where
  "well_typed_article v = (case v of JObject obj \<Rightarrow> fields_well_typed obj | _ \<Rightarrow> False)"



text \<open>
  A response with three articles: a numeric id, a numeric string, and an id and a time
  stamp that cannot be read. The time parser here reads one text in the third layout.
\<close>

definition odd_article :: json where
  "odd_article =
     JObject [(''id'', JString ''abc''), (''title'', JString ''Odd''),
              (''updated'', JString ''yesterday'')]"

definition env_clock :: env where
  "env_clock =
     env_quiet\<lparr>time_parse := (\<lambda>layout s.
        if layout = ''2006-01-02 15:04:05'' \<and> s = ''2024-01-15 12:00:00''
        then Some 1705320000 else None)\<rparr>"

definition three_articles :: "json list" where
  "three_articles =
     [JObject [(''id'', JNumber 12345), (''title'', JString ''A''),
               (''updated'', JString ''2024-01-15 12:00:00'')],
      JObject [(''id'', JString ''12346''), (''title'', JString ''B'')],
      odd_article]"

text \<open>
  An upstream that has three articles in all: the request without an offset gets them,
  any request with an offset gets an empty page.
\<close>

definition env_three :: env where
  "env_three =
     env_clock\<lparr>http_get := (\<lambda>n request.
        Reply 200 (Some (JObject [(''news'',
          JArray (if q_offset request = None then three_articles else []))])))\<rparr>"

text \<open>An article whose title has 257 bytes, one more than the chat service accepts.\<close>

definition long_title_item :: NewsItem where
  "long_title_item = zero_item\<lparr>ID := 300, Title := replicate 257 CHR ''a''\<rparr>"

section \<open>Properties: the delivery engine\<close>

text \<open>The number of successful posts of an article to a channel so far.\<close>

definition post_count :: "world \<Rightarrow> int \<Rightarrow> string \<Rightarrow> nat" where
  "post_count w newsID channelID =
     length (filter (\<lambda>p. fst p = channelID \<and> ID (snd p) = newsID) (posts w))"


text \<open>Two states with the same delivery table and the same posts.\<close>

definition same_ledger :: "world \<Rightarrow> world \<Rightarrow> bool" where
  "same_ledger w w' = (posted_news (db w') = posted_news (db w) \<and> posts w' = posts w)"

text \<open>
  A schedule in which the database driver never fails four calls in a row. The four
  attempts of \<^verbatim>\<open>MarkNewsAsPosted\<close> (one call and \<^verbatim>\<open>RetryCount = 3\<close> retries) are four
  calls in a row, so under such a schedule every write to the ledger succeeds.
\<close>

definition ledger_writable :: "env \<Rightarrow> bool" where
  "ledger_writable e =
     (\<forall>n. \<not> (db_fault e n \<and> db_fault e (n + 1) \<and> db_fault e (n + 2) \<and> db_fault e (n + 3)))"

text \<open>
  Scenario S4 of the specification: one subscription, an upstream whose only article is
  article 300, and a chat service that fails every post before call 8 of the run, which
  is the case of the first post.
\<close>

definition article_300 :: json where
  "article_300 =
     JObject [(''id'', JNumber 300), (''title'', JString ''Bridge Officers''),
              (''platforms'', JArray [JString ''pc'']),
              (''updated'', JString ''2024-01-15 12:00:00'')]"

definition env_s4 :: env where
  "env_s4 =
     env_clock\<lparr>
       http_get := (\<lambda>n request. Reply 200 (Some (JObject [(''news'',
          JArray (if q_offset request = None then [article_300] else []))]))),
       chat_send := (\<lambda>n channelID emb. if n < 8 then Some (ChatFailure ''500'') else None)\<rparr>"

definition config_s4 :: Config where
  "config_s4 =
     \<lparr>PollPeriod = 600, PollCount = 20, FreshSeconds = 600, MsgCount = 10, Environment = []\<rparr>"

definition world_s4 :: world where
  "world_s4 =
     \<lparr>db = db_ready\<lparr>channels := Some
             [\<lparr>ch_id = ''CH3'', ch_platforms = ''pc'', ch_environment = ''PROD'',
               ch_created_at = 1, ch_updated_at = 1\<rparr>]\<rparr>,
      posts = [], clock = 0\<rparr>"


text \<open>
  Scenario S4 with a database driver that fails the calls 13 to 16, all four attempts to
  record the delivery made at the second tick.
\<close>

definition env_ledger_down :: env where
  "env_ledger_down = env_s4\<lparr>db_fault := (\<lambda>n. 13 \<le> n \<and> n \<le> 16)\<rparr>"

section \<open>Store: ledger, subscriptions, migration\<close>

lemma exec_ok:
  "no_db_faults e \<Longrightarrow> stmt (db w) = Inr d \<Longrightarrow> exec e stmt w = (None, advance (w\<lparr>db := d\<rparr>))"
  by (simp add: exec_def no_db_faults_def)

lemma query_ok:
  "no_db_faults e \<Longrightarrow> query e q w = (q (db w), advance w)"
  by (simp add: query_def no_db_faults_def)

lemma distinct_key_count:
  "distinct (map f xs) \<Longrightarrow> length (filter (\<lambda>r. f r = k) xs) \<le> 1"
proof (induction xs)
  case Nil then show ?case by simp
next
  case (Cons x xs)
  show ?case
  proof (cases "f x = k")
    case True
    with Cons.prems have "k \<notin> f ` set xs" by simp
    then have "\<forall>r \<in> set xs. f r \<noteq> k" by blast
    then have "filter (\<lambda>r. f r = k) xs = []" by (simp add: filter_empty_conv)
    with True show ?thesis by simp
  next
    case False
    with Cons show ?thesis by simp
  qed
qed

lemma count_pair_unique:
  "ledger_unique t \<Longrightarrow> count_pair t a c \<le> 1"
  using distinct_key_count[of "\<lambda>r. (news_id r, channel_id r)" "prows t" "(a, c)"]
  by (simp add: ledger_unique_def count_pair_def)

lemma insert_or_ignore_count:
  assumes "key_schema t = CompositeUnique" "ledger_unique t"
  shows "count_pair (insert_or_ignore t \<lparr>news_id = a, channel_id = c, posted_at = p\<rparr>) a c = 1"
proof (cases "conflicts t a c")
  case True
  then have "\<exists>r \<in> set (prows t). news_id r = a \<and> channel_id r = c"
    using assms(1) by (simp add: conflicts_def)
  then have "filter (\<lambda>r. news_id r = a \<and> channel_id r = c) (prows t) \<noteq> []"
    by (auto simp: filter_empty_conv)
  then have "count_pair t a c \<ge> 1" by (cases "filter (\<lambda>r. news_id r = a \<and> channel_id r = c) (prows t)") (auto simp: count_pair_def)
  with count_pair_unique[OF assms(2), of a c] True show ?thesis
    by (simp add: insert_or_ignore_def)
next
  case False
  then have "\<not> (\<exists>r \<in> set (prows t). news_id r = a \<and> channel_id r = c)"
    using assms(1) by (simp add: conflicts_def)
  then have "filter (\<lambda>r. news_id r = a \<and> channel_id r = c) (prows t) = []"
    by (auto simp: filter_empty_conv)
  with False show ?thesis by (simp add: insert_or_ignore_def count_pair_def)
qed

lemma insert_or_ignore_unique:
  assumes "key_schema t = CompositeUnique" "ledger_unique t"
  shows "ledger_unique (insert_or_ignore t r)"
  using assms by (auto simp: insert_or_ignore_def ledger_unique_def conflicts_def)

lemma insert_or_ignore_schema [simp]:
  "key_schema (insert_or_ignore t r) = key_schema t"
  "has_posted_at (insert_or_ignore t r) = has_posted_at t"
  by (simp_all add: insert_or_ignore_def)

lemma mark_ok:
  assumes "no_db_faults e" "posted_news (db w) = Some t" "0 \<le> RetryCount options"
  shows "MarkNewsAsPostedWithOptions e a c options w =
     (None, advance (w\<lparr>db := (db w)\<lparr>posted_news := Some (insert_or_ignore t
        \<lparr>news_id = a, channel_id = c,
         posted_at = (if has_posted_at t then Some (now e (clock w)) else None)\<rparr>)\<rparr>\<rparr>))"
  using assms
  by (simp add: MarkNewsAsPostedWithOptions_def exec_ok[where d="(db w)\<lparr>posted_news := Some (insert_or_ignore t
        \<lparr>news_id = a, channel_id = c,
         posted_at = (if has_posted_at t then Some (now e (clock w)) else None)\<rparr>)\<rparr>"] sql_insert_posted_def)

text \<open>
  Claim C3 (ledger idempotence). On a delivery table of the current shape, whose rows
  obey \<^verbatim>\<open>UNIQUE(news_id, channel_id)\<close>, and with a driver that fails no call,
  \<^verbatim>\<open>MarkNewsAsPostedWithOptions\<close> called \<open>k \<ge> 1\<close> times for the same pair returns
  \<^verbatim>\<open>nil\<close> every time, and the table then holds exactly one row for the pair and still
  obeys the constraint. The statement being \<^verbatim>\<open>INSERT OR IGNORE\<close>, it is the constraint
  that keeps the second row out, not a check in the Go code.
\<close>

theorem mark_delivered_idempotent:
  assumes "no_db_faults e" and "0 \<le> RetryCount options"
    and "posted_news (db w) = Some t" and "key_schema t = CompositeUnique"
    and "ledger_unique t" and "1 \<le> k"
  shows "\<exists>w' t'. mark_times e k newsID channelID options w = (replicate k None, w')
           \<and> posted_news (db w') = Some t' \<and> key_schema t' = CompositeUnique
           \<and> ledger_unique t' \<and> count_pair t' newsID channelID = 1"
  using assms(3-6)
proof (induction k arbitrary: w t)
  case 0 then show ?case by simp
next
  case (Suc k)
  let ?r = "\<lparr>news_id = newsID, channel_id = channelID,
         posted_at = (if has_posted_at t then Some (now e (clock w)) else None)\<rparr>"
  let ?t1 = "insert_or_ignore t ?r"
  let ?w1 = "advance (w\<lparr>db := (db w)\<lparr>posted_news := Some ?t1\<rparr>\<rparr>)"
  have m: "MarkNewsAsPostedWithOptions e newsID channelID options w = (None, ?w1)"
    using mark_ok[OF assms(1) Suc.prems(1) assms(2)] by simp
  have p1: "posted_news (db ?w1) = Some ?t1" by (simp add: advance_def)
  have k1: "key_schema ?t1 = CompositeUnique" using Suc.prems(2) by simp
  have u1: "ledger_unique ?t1" using insert_or_ignore_unique[OF Suc.prems(2,3)] .
  have c1: "count_pair ?t1 newsID channelID = 1"
    using insert_or_ignore_count[OF Suc.prems(2,3)] .
  show ?case
  proof (cases k)
    case 0
    then show ?thesis using m p1 k1 u1 c1 by auto
  next
    case (Suc j)
    then have "1 \<le> k" by simp
    from Suc.IH[OF p1 k1 u1 this] obtain w' t' where
      "mark_times e k newsID channelID options ?w1 = (replicate k None, w')"
      "posted_news (db w') = Some t'" "key_schema t' = CompositeUnique"
      "ledger_unique t'" "count_pair t' newsID channelID = 1" by blast
    then show ?thesis using m by auto
  qed
qed

theorem mark_delivered_idempotent_witness:
  "no_db_faults env_quiet \<and> 0 \<le> RetryCount DefaultDatabaseOptions
   \<and> posted_news (db world_busy) = Some (the (posted_news db_busy))
   \<and> key_schema (the (posted_news db_busy)) = CompositeUnique
   \<and> ledger_unique (the (posted_news db_busy)) \<and> (1::nat) \<le> 3
   \<and> (\<exists>w' t'. mark_times env_quiet 3 103 ''CH2'' DefaultDatabaseOptions world_busy
                  = (replicate 3 None, w')
          \<and> posted_news (db w') = Some t' \<and> key_schema t' = CompositeUnique
          \<and> ledger_unique t' \<and> count_pair t' 103 ''CH2'' = 1)"
proof -
  have h1: "no_db_faults env_quiet" by (simp add: no_db_faults_def env_quiet_def)
  have h2: "0 \<le> RetryCount DefaultDatabaseOptions" by (simp add: DefaultDatabaseOptions_def)
  have h3: "posted_news (db world_busy) = Some (the (posted_news db_busy))"
    by (simp add: world_busy_def db_busy_def)
  have h4: "key_schema (the (posted_news db_busy)) = CompositeUnique"
    by (simp add: db_busy_def new_posted_table_def)
  have h5: "ledger_unique (the (posted_news db_busy))"
    by (simp add: db_busy_def new_posted_table_def ledger_unique_def)
  have h6: "(1::nat) \<le> 3" by simp
  from mark_delivered_idempotent[OF h1 h2 h3 h4 h5 h6, of 103 "''CH2''"]
  show ?thesis using h1 h2 h3 h4 h5 by simp
qed

text \<open>
  Claim C6 (cascade on unsubscribe). When \<^verbatim>\<open>RemoveChannel\<close> returns \<^verbatim>\<open>nil\<close>, the
  database is the old one without the subscription rows of the channel and without its
  delivery rows, so none of either is left; and when it returns an error the database
  is the old one: the two deletions are committed together or not at all.
\<close>

theorem remove_subscription_cascade:
  "(RemoveChannel e channelID w = (None, w') \<longrightarrow>
      (\<exists>rs t. channels (db w) = Some rs \<and> posted_news (db w) = Some t
         \<and> db w' = (db w)\<lparr>channels := Some (filter (\<lambda>r. ch_id r \<noteq> channelID) rs),
                           posted_news := Some (t\<lparr>prows := filter (\<lambda>r. channel_id r \<noteq> channelID) (prows t)\<rparr>)\<rparr>
         \<and> (\<forall>r \<in> set (the (channels (db w'))). ch_id r \<noteq> channelID)
         \<and> (\<forall>r \<in> set (prows (the (posted_news (db w')))). channel_id r \<noteq> channelID)))
   \<and> (RemoveChannel e channelID w = (Some err, w') \<longrightarrow> db w' = db w)"
  by (auto simp: RemoveChannel_def begin_tx_def tx_exec_def commit_tx_def advance_def
        sql_delete_channel_def sql_delete_posted_def
      split: if_splits option.splits sum.splits prod.splits)

theorem remove_subscription_cascade_witness:
  "fst (RemoveChannel env_quiet ''CH1'' world_busy) = None
   \<and> map ch_id (the (channels (db (snd (RemoveChannel env_quiet ''CH1'' world_busy))))) = [''CH2'']
   \<and> deliveries (the (posted_news (db (snd (RemoveChannel env_quiet ''CH1'' world_busy)))))
        = [(101, ''CH2'')]
   \<and> list_all (\<lambda>r. channel_id r \<noteq> ''CH1'')
        (prows (the (posted_news (db (snd (RemoveChannel env_quiet ''CH1'' world_busy))))))
   \<and> fst (RemoveChannel (env_fault_at 3) ''CH1'' world_busy) = Some (SqlFailure ''driver'')
   \<and> db (snd (RemoveChannel (env_fault_at 3) ''CH1'' world_busy)) = db world_busy"
proof -
  have ok: "fst (RemoveChannel env_quiet ''CH1'' world_busy) = None" by code_simp
  have ko: "fst (RemoveChannel (env_fault_at 3) ''CH1'' world_busy) = Some (SqlFailure ''driver'')"
    by code_simp
  have okp: "RemoveChannel env_quiet ''CH1'' world_busy
     = (None, snd (RemoveChannel env_quiet ''CH1'' world_busy))"
    by (rule prod_eqI) (simp_all add: ok)
  have kop: "RemoveChannel (env_fault_at 3) ''CH1'' world_busy
        = (Some (SqlFailure ''driver''), snd (RemoveChannel (env_fault_at 3) ''CH1'' world_busy))"
    by (rule prod_eqI) (simp_all add: ko)
  note good = remove_subscription_cascade[of env_quiet "''CH1''" world_busy
      "snd (RemoveChannel env_quiet ''CH1'' world_busy)" undefined, THEN conjunct1, THEN mp, OF okp]
  note bad = remove_subscription_cascade[of "env_fault_at 3" "''CH1''" world_busy
      "snd (RemoveChannel (env_fault_at 3) ''CH1'' world_busy)" "SqlFailure ''driver''",
      THEN conjunct2, THEN mp, OF kop]
  from good obtain rs t where
    rs: "channels (db world_busy) = Some rs" and t: "posted_news (db world_busy) = Some t"
    and d: "db (snd (RemoveChannel env_quiet ''CH1'' world_busy))
      = (db world_busy)\<lparr>channels := Some (filter (\<lambda>r. ch_id r \<noteq> ''CH1'') rs),
           posted_news := Some (t\<lparr>prows := filter (\<lambda>r. channel_id r \<noteq> ''CH1'') (prows t)\<rparr>)\<rparr>"
    and gone: "\<forall>r \<in> set (prows (the (posted_news (db (snd (RemoveChannel env_quiet ''CH1'' world_busy)))))).
                 channel_id r \<noteq> ''CH1''"
    by blast
  have rs': "rs = the (channels db_busy)" using rs by (simp add: world_busy_def db_busy_def)
  have t': "t = the (posted_news db_busy)" using t by (simp add: world_busy_def db_busy_def)
  have c1: "map ch_id (the (channels (db (snd (RemoveChannel env_quiet ''CH1'' world_busy))))) = [''CH2'']"
    unfolding d rs' by (simp add: db_busy_def)
  have c2: "deliveries (the (posted_news (db (snd (RemoveChannel env_quiet ''CH1'' world_busy)))))
        = [(101, ''CH2'')]"
    unfolding d t' by (simp add: db_busy_def deliveries_def new_posted_table_def)
  show ?thesis using ok ko c1 c2 gone bad by (simp add: list_all_iff)
qed

lemma mark_batch_ok:
  assumes "no_db_faults e" "posted_news tx = Some t" "key_schema t = CompositeUnique"
  shows "\<exists>w' t'. mark_batch e options ps tx w = ((None, tx\<lparr>posted_news := Some t'\<rparr>), w')
           \<and> key_schema t' = CompositeUnique \<and> has_posted_at t' = has_posted_at t
           \<and> (\<forall>r \<in> set (prows t). r \<in> set (prows t'))
           \<and> (\<forall>p \<in> set ps. \<exists>r \<in> set (prows t'). news_id r = fst p \<and> channel_id r = snd p)
           \<and> (\<forall>r \<in> set (prows t'). r \<in> set (prows t) \<or> (news_id r, channel_id r) \<in> set ps)"
  using assms(2,3)
proof (induction ps arbitrary: tx t w)
  case Nil
  then show ?case by (auto intro!: exI[of _ t])
next
  case (Cons p ps)
  obtain a c where p: "p = (a, c)" by (cases p)
  let ?r = "\<lparr>news_id = a, channel_id = c,
              posted_at = (if has_posted_at t then Some (now e (clock w)) else None)\<rparr>"
  let ?t1 = "insert_or_ignore t ?r"
  let ?tx1 = "tx\<lparr>posted_news := Some ?t1\<rparr>"
  have step: "tx_exec e (sql_insert_posted (now e (clock w)) a c) tx w = ((None, ?tx1), advance w)"
    using assms(1) Cons.prems(1) by (simp add: tx_exec_def no_db_faults_def sql_insert_posted_def)
  have "posted_news ?tx1 = Some ?t1" "key_schema ?t1 = CompositeUnique"
    using Cons.prems(2) by simp_all
  from Cons.IH[OF this, of "advance w"] obtain w' t' where
    ih: "mark_batch e options ps ?tx1 (advance w) = ((None, ?tx1\<lparr>posted_news := Some t'\<rparr>), w')"
      "key_schema t' = CompositeUnique" "has_posted_at t' = has_posted_at ?t1"
      "\<forall>r \<in> set (prows ?t1). r \<in> set (prows t')"
      "\<forall>p \<in> set ps. \<exists>r \<in> set (prows t'). news_id r = fst p \<and> channel_id r = snd p"
      "\<forall>r \<in> set (prows t'). r \<in> set (prows ?t1) \<or> (news_id r, channel_id r) \<in> set ps"
    by blast
  have sub: "\<forall>r \<in> set (prows t). r \<in> set (prows ?t1)"
    by (simp add: insert_or_ignore_def)
  have hr: "\<exists>r \<in> set (prows ?t1). news_id r = a \<and> channel_id r = c"
    using Cons.prems(2) by (auto simp: insert_or_ignore_def conflicts_def)
  have bk: "\<forall>r \<in> set (prows ?t1). r \<in> set (prows t) \<or> (news_id r, channel_id r) = (a, c)"
    by (auto simp: insert_or_ignore_def)
  have "mark_batch e options (p # ps) tx w = ((None, tx\<lparr>posted_news := Some t'\<rparr>), w')"
    using step ih(1) p by simp
  moreover have "\<forall>r \<in> set (prows t). r \<in> set (prows t')" using sub ih(4) by blast
  moreover have "\<forall>q \<in> set (p # ps). \<exists>r \<in> set (prows t'). news_id r = fst q \<and> channel_id r = snd q"
    using hr ih(4,5) p by auto
  moreover have "\<forall>r \<in> set (prows t'). r \<in> set (prows t) \<or> (news_id r, channel_id r) \<in> set (p # ps)"
    using bk ih(6) p by auto
  ultimately show ?case using ih(2,3) by auto
qed

lemma parse_ids: "ID (parseNewsRow r) = c_id r"
  by (simp add: parseNewsRow_def)

lemma pairs_of_single:
  "pairs_of items [c] = map (\<lambda>n. (ID n, c)) items"
  by (induction items) (simp_all add: pairs_of_def)

text \<open>
  Claim C2 (no back-spam on subscribe). In an initialised database and with a driver
  that fails no call, \<^verbatim>\<open>AddChannel\<close> for a channel that has no row in \<^verbatim>\<open>channels\<close>
  returns \<^verbatim>\<open>nil\<close>, and afterwards \<^verbatim>\<open>IsNewsPosted\<close> answers true for the channel and every
  article that was in \<^verbatim>\<open>news_cache\<close> when it was called.
\<close>

theorem no_back_spam_on_subscribe:
  assumes nf: "no_db_faults e" and ini: "initialised (db w)"
    and ch: "channels (db w) = Some rs" and new: "\<forall>r \<in> set rs. ch_id r \<noteq> channelID"
    and ca: "news_cache (db w) = Some cs" and a: "a \<in> set cs"
  shows "\<exists>w' w''. AddChannel e channelID w = (None, w')
           \<and> IsNewsPosted e (c_id a) channelID w' = (Inr True, w'')"
proof -
  from ini obtain t where pt: "posted_news (db w) = Some t" "key_schema t = CompositeUnique"
    by (auto simp: initialised_def split: option.splits)
  from ini have cols: "set [''id'', ''platforms'', ''environment'', ''updated_at'']
                 \<subseteq> set (channels_columns (db w))"
    and ccols: "set cache_select_columns \<subseteq> set (news_cache_columns (db w))"
    by (auto simp: initialised_def channels_schema_columns_def cache_select_columns_def
          cache_insert_columns_def)
  let ?w1 = "advance w"
  have q: "query e (sql_select_channel channelID) w = (Inl ErrNoRows, ?w1)"
    using ch new by (simp add: query_ok[OF nf] sql_select_channel_def)
  let ?row = "\<lparr>ch_id = channelID, ch_platforms = ''pc,xbox,ps'', ch_environment = ''PROD'',
               ch_created_at = now e (clock ?w1), ch_updated_at = now e (clock ?w1)\<rparr>"
  let ?d2 = "(db w)\<lparr>channels := Some (filter (\<lambda>r. ch_id r \<noteq> channelID) rs @ [?row])\<rparr>"
  let ?w2 = "advance (?w1\<lparr>db := ?d2\<rparr>)"
  have st: "sql_replace_channel (now e (clock ?w1)) channelID ''PROD'' (db ?w1) = Inr ?d2"
    using ch cols by (simp add: sql_replace_channel_def advance_def)
  have x: "exec e (sql_replace_channel (now e (clock ?w1)) channelID ''PROD'') ?w1 = (None, ?w2)"
    using nf st by (simp add: exec_def no_db_faults_def)
  let ?items = "map parseNewsRow (rev (sort_key c_id cs))"
  let ?w3 = "advance ?w2"
  have g: "GetAllCachedNews e ?w2 = (Inr ?items, ?w3)"
    using ca ccols
    by (simp add: query_ok[OF nf] GetAllCachedNews_def sql_select_all_cached_def advance_def)
  have len: "length ?items > 0" using a by (cases cs) auto
  let ?ps = "pairs_of ?items [channelID]"
  have b: "begin_tx e ?w3 = (Inr ?d2, advance ?w3)"
    using nf by (simp add: begin_tx_def no_db_faults_def advance_def)
  have "posted_news ?d2 = Some t" using pt by simp
  from mark_batch_ok[OF nf this pt(2), of BulkDatabaseOptions ?ps "advance ?w3"]
  obtain w4 t' where mb: "mark_batch e BulkDatabaseOptions ?ps ?d2 (advance ?w3)
        = ((None, ?d2\<lparr>posted_news := Some t'\<rparr>), w4)"
    and all: "\<forall>p \<in> set ?ps. \<exists>r \<in> set (prows t'). news_id r = fst p \<and> channel_id r = snd p"
    by blast
  let ?w5 = "advance (w4\<lparr>db := ?d2\<lparr>posted_news := Some t'\<rparr>\<rparr>)"
  have c: "commit_tx e (?d2\<lparr>posted_news := Some t'\<rparr>) w4 = (None, ?w5)"
    using nf by (simp add: commit_tx_def no_db_faults_def)
  have mm: "MarkMultipleNewsAsPosted e ?items [channelID] BulkDatabaseOptions ?w3 = (None, ?w5)"
    using b mb c by (simp add: MarkMultipleNewsAsPosted_def BulkDatabaseOptions_def)
  have tail: "mark_existing_for_new e True channelID ?w2 = (None, ?w5)"
    using g len mm by (simp add: mark_existing_for_new_def)
  have add: "AddChannel e channelID w = (None, ?w5)"
    using q x tail by (simp add: AddChannel_def)
  have "(c_id a, channelID) \<in> set ?ps"
    using a by (force simp: pairs_of_single parse_ids)
  with all have "\<exists>r \<in> set (prows t'). news_id r = c_id a \<and> channel_id r = channelID" by force
  then have "sql_select_posted (c_id a) channelID (db ?w5) = Inr 1"
    by (simp add: sql_select_posted_def advance_def)
  then have "IsNewsPosted e (c_id a) channelID ?w5 = (Inr True, advance ?w5)"
    by (simp add: query_ok[OF nf] IsNewsPosted_def)
  with add show ?thesis by blast
qed

theorem no_back_spam_on_subscribe_witness:
  "no_db_faults env_quiet \<and> initialised (db world_busy)
   \<and> channels (db world_busy) = Some (the (channels db_busy))
   \<and> list_all (\<lambda>r. ch_id r \<noteq> ''CH9'') (the (channels db_busy))
   \<and> news_cache (db world_busy) = Some (the (news_cache db_busy))
   \<and> cached 103 ''Three'' \<in> set (the (news_cache db_busy))
   \<and> (\<exists>w' w''. AddChannel env_quiet ''CH9'' world_busy = (None, w')
          \<and> IsNewsPosted env_quiet 103 ''CH9'' w' = (Inr True, w''))"
proof -
  have h1: "no_db_faults env_quiet" by (simp add: no_db_faults_def env_quiet_def)
  have h2: "initialised (db world_busy)"
    by (simp add: initialised_def world_busy_def db_busy_def db_ready_def new_posted_table_def)
  have h3: "channels (db world_busy) = Some (the (channels db_busy))"
    by (simp add: world_busy_def db_busy_def)
  have h4: "\<forall>r \<in> set (the (channels db_busy)). ch_id r \<noteq> ''CH9''"
    by (simp add: db_busy_def)
  have h5: "news_cache (db world_busy) = Some (the (news_cache db_busy))"
    by (simp add: world_busy_def db_busy_def)
  have h6: "cached 103 ''Three'' \<in> set (the (news_cache db_busy))"
    by (simp add: db_busy_def)
  from no_back_spam_on_subscribe[OF h1 h2 h3 h4 h5 h6]
  show ?thesis using h1 h2 h3 h4 h5 h6 by (simp add: cached_def list_all_iff)
qed

text \<open>
  Claim C10 (re-registration overwrites). With a driver that fails no call,
  \<^verbatim>\<open>AddChannel\<close> for a channel that already has a row returns \<^verbatim>\<open>nil\<close>; the only change
  to the database is that the rows of the channel are replaced by one row with platforms
  \<^verbatim>\<open>pc,xbox,ps\<close> and environment \<^verbatim>\<open>PROD\<close>, whatever they were before; the delivery table
  and the article cache are as they were, so nothing is marked as delivered.
\<close>

theorem add_existing_channel_overwrites:
  assumes nf: "no_db_faults e"
    and ch: "channels (db w) = Some rs"
    and cols: "set [''id'', ''platforms'', ''environment'', ''updated_at'']
                 \<subseteq> set (channels_columns (db w))"
    and old: "\<exists>r \<in> set rs. ch_id r = channelID"
  shows "\<exists>w'. AddChannel e channelID w = (None, w')
           \<and> db w' = (db w)\<lparr>channels := Some (filter (\<lambda>r. ch_id r \<noteq> channelID) rs @
                 [\<lparr>ch_id = channelID, ch_platforms = ''pc,xbox,ps'', ch_environment = ''PROD'',
                   ch_created_at = now e (Suc (clock w)),
                   ch_updated_at = now e (Suc (clock w))\<rparr>])\<rparr>
           \<and> posted_news (db w') = posted_news (db w)
           \<and> news_cache (db w') = news_cache (db w)
           \<and> sql_select_platforms channelID (db w') = Inr ''pc,xbox,ps''
           \<and> filter (\<lambda>r. ch_id r = channelID) (the (channels (db w'))) =
                 [\<lparr>ch_id = channelID, ch_platforms = ''pc,xbox,ps'', ch_environment = ''PROD'',
                   ch_created_at = now e (Suc (clock w)),
                   ch_updated_at = now e (Suc (clock w))\<rparr>]"
proof -
  let ?w1 = "advance w"
  have q: "query e (sql_select_channel channelID) w = (Inr 1, ?w1)"
    using ch old by (simp add: query_ok[OF nf] sql_select_channel_def)
  let ?row = "\<lparr>ch_id = channelID, ch_platforms = ''pc,xbox,ps'', ch_environment = ''PROD'',
               ch_created_at = now e (clock ?w1), ch_updated_at = now e (clock ?w1)\<rparr>"
  let ?d2 = "(db w)\<lparr>channels := Some (filter (\<lambda>r. ch_id r \<noteq> channelID) rs @ [?row])\<rparr>"
  let ?w2 = "advance (?w1\<lparr>db := ?d2\<rparr>)"
  have st: "sql_replace_channel (now e (clock ?w1)) channelID ''PROD'' (db ?w1) = Inr ?d2"
    using ch cols by (simp add: sql_replace_channel_def advance_def)
  have x: "exec e (sql_replace_channel (now e (clock ?w1)) channelID ''PROD'') ?w1 = (None, ?w2)"
    using nf st by (simp add: exec_def no_db_faults_def)
  have add: "AddChannel e channelID w = (None, ?w2)"
    using q x by (simp add: AddChannel_def mark_existing_for_new_def)
  have f: "filter (\<lambda>r. ch_id r = channelID) (filter (\<lambda>r. ch_id r \<noteq> channelID) rs) = []"
    by (simp add: filter_empty_conv)
  show ?thesis
    using add f by (simp add: advance_def sql_select_platforms_def)
qed

theorem add_existing_channel_overwrites_witness:
  "no_db_faults env_quiet
   \<and> channels (db world_busy) = Some (the (channels db_busy))
   \<and> list_ex (\<lambda>r. ch_id r = ''CH1'' \<and> ch_platforms r = ''pc'' \<and> ch_environment r = ''DEV'')
        (the (channels db_busy))
   \<and> fst (AddChannel env_quiet ''CH1'' world_busy) = None
   \<and> filter (\<lambda>r. ch_id r = ''CH1'')
        (the (channels (db (snd (AddChannel env_quiet ''CH1'' world_busy)))))
      = [\<lparr>ch_id = ''CH1'', ch_platforms = ''pc,xbox,ps'', ch_environment = ''PROD'',
          ch_created_at = 1001, ch_updated_at = 1001\<rparr>]
   \<and> posted_news (db (snd (AddChannel env_quiet ''CH1'' world_busy))) = posted_news db_busy
   \<and> \<not> list_ex (\<lambda>r. news_id r = 103 \<and> channel_id r = ''CH1'')
          (prows (the (posted_news (db (snd (AddChannel env_quiet ''CH1'' world_busy))))))"
proof -
  have h1: "no_db_faults env_quiet" by (simp add: no_db_faults_def env_quiet_def)
  have h2: "channels (db world_busy) = Some (the (channels db_busy))"
    by (simp add: world_busy_def db_busy_def)
  have h3: "set [''id'', ''platforms'', ''environment'', ''updated_at'']
              \<subseteq> set (channels_columns (db world_busy))"
    by (simp add: world_busy_def db_busy_def db_ready_def channels_schema_columns_def)
  have h4: "\<exists>r \<in> set (the (channels db_busy)). ch_id r = ''CH1''"
    by (simp add: db_busy_def)
  have h5: "list_ex (\<lambda>r. ch_id r = ''CH1'' \<and> ch_platforms r = ''pc'' \<and> ch_environment r = ''DEV'')
        (the (channels db_busy))"
    by (simp add: db_busy_def)
  have n: "now env_quiet (Suc (clock world_busy)) = 1001"
    by (simp add: env_quiet_def world_busy_def)
  have p: "\<not> list_ex (\<lambda>r. news_id r = 103 \<and> channel_id r = ''CH1'') (prows (the (posted_news db_busy)))"
    by (simp add: db_busy_def new_posted_table_def)
  have q: "posted_news (db world_busy) = posted_news db_busy" by (simp add: world_busy_def)
  from add_existing_channel_overwrites[OF h1 h2 h3 h4] obtain w' where
    "AddChannel env_quiet ''CH1'' world_busy = (None, w')"
    "posted_news (db w') = posted_news (db world_busy)"
    "filter (\<lambda>r. ch_id r = ''CH1'') (the (channels (db w'))) =
       [\<lparr>ch_id = ''CH1'', ch_platforms = ''pc,xbox,ps'', ch_environment = ''PROD'',
         ch_created_at = now env_quiet (Suc (clock world_busy)),
         ch_updated_at = now env_quiet (Suc (clock world_busy))\<rparr>]"
    by blast
  then show ?thesis using h1 h2 h5 n p q by simp
qed


























section \<open>Duplicate suppression\<close>

lemma of_char_lower: "65 \<le> (of_char c :: nat) \<Longrightarrow> (of_char c :: nat) \<le> 90 \<Longrightarrow>
    (of_char (char_of ((of_char c :: nat) + 32) :: char) :: nat) = of_char c + 32"
  by (simp add: of_char_of)

lemma is_space_lower [simp]: "is_space (lower_char c) = is_space c"
  by (auto simp: is_space_def lower_char_def Let_def of_char_of)

lemma ToLower_Nil [simp]: "(ToLower s = []) = (s = [])"
  by (simp add: ToLower_def)

lemma ToLower_append: "ToLower (a @ b) = ToLower a @ ToLower b"
  by (simp add: ToLower_def)







section \<open>Decoding\<close>



lemma unmarshal_ill_typed:
  assumes "\<not> well_typed_article v" "v \<noteq> JNull"
  shows "isl (UnmarshalJSON e v)"
  using assms
  by (auto simp: well_typed_article_def fields_well_typed_def UnmarshalJSON_def
      split: json.splits sum.splits)
















section \<open>Pagination\<close>

declare paginate.simps [simp del]

lemma fetch_page_clock:
  "fetch_page e tag limit offset w = (r, w') \<Longrightarrow> w' = advance w"
  by (auto simp: fetch_page_def split: http_reply.splits if_splits sum.splits)

lemma paginate_requests:
  "clock (snd (paginate e tag count itemLimit allNews offset w)) - clock w
     \<le> nat (count - int (length allNews))"
proof (induction e tag count itemLimit allNews offset w rule: paginate.induct)
  case (1 e tag count itemLimit allNews offset w)
  show ?case
  proof (cases "int (length allNews) < count")
    case False
    then show ?thesis by (subst paginate.simps) simp
  next
    case True
    define limit where "limit = (if count - int (length allNews) < itemLimit
                                 then count - int (length allNews) else itemLimit)"
    obtain r w1 where f: "fetch_page e tag limit offset w = (r, w1)" by force
    then have w1: "w1 = advance w" by (rule fetch_page_clock)
    show ?thesis
    proof (cases r)
      case (Inl err)
      then show ?thesis using True f w1
        by (subst paginate.simps) (simp add: Let_def limit_def[symmetric] advance_def)
    next
      case (Inr news)
      show ?thesis
      proof (cases "length news = 0")
        case True2: True
        then show ?thesis using True f w1 Inr
          by (subst paginate.simps) (simp add: Let_def limit_def[symmetric] advance_def)
      next
        case False
        have ih: "clock (snd (paginate e tag count itemLimit (allNews @ news)
                    (offset + int (length news)) w1)) - clock w1
                 \<le> nat (count - int (length (allNews @ news)))"
          using "1.IH"[OF True refl refl, of r w1 news] f Inr False
          by (simp add: limit_def)
        have eq: "paginate e tag count itemLimit allNews offset w
                  = paginate e tag count itemLimit (allNews @ news) (offset + int (length news)) w1"
          using True f Inr False
          by (subst paginate.simps) (simp add: Let_def limit_def[symmetric])
        have k: "1 \<le> int (length news)" using False by (cases news) simp_all
        have c1: "clock w1 = Suc (clock w)" using w1 by (simp add: advance_def)
        define X where "X = clock (snd (paginate e tag count itemLimit (allNews @ news)
                    (offset + int (length news)) w1))"
        have "X - Suc (clock w) \<le> nat (count - int (length allNews) - int (length news))"
          using ih c1 by (simp add: X_def algebra_simps)
        then have "X - clock w \<le> nat (count - int (length allNews))"
          using k True by linarith
        then show ?thesis by (simp add: eq X_def)
      qed
    qed
  qed
qed

text \<open>
  Claim C7 (pagination terminates). The loop is a total function: its measure is the
  number of articles still missing. It returns at once when the articles collected reach
  \<open>count\<close>; it returns what it has as soon as a page comes back empty; and it never makes
  more requests than articles were missing, so \<^verbatim>\<open>FetchNews\<close> in paginated mode makes at
  most \<open>count\<close> requests, however few articles the upstream has.
\<close>

theorem pagination_terminates:
  "(count \<le> int (length allNews) \<longrightarrow>
      paginate e tag count itemLimit allNews offset w = (Inr allNews, w))
   \<and> (int (length allNews) < count
        \<and> fetch_page e tag (if count - int (length allNews) < itemLimit
                             then count - int (length allNews) else itemLimit) offset w
            = (Inr [], w1) \<longrightarrow>
      paginate e tag count itemLimit allNews offset w = (Inr allNews, w1))
   \<and> clock (snd (paginate e tag count itemLimit allNews offset w)) - clock w
        \<le> nat (count - int (length allNews))
   \<and> (EnablePagination options \<and> ItemLimit options < count \<longrightarrow>
        clock (snd (FetchNews e tag count options w)) - clock w \<le> nat count)"
proof (intro conjI impI)
  assume "count \<le> int (length allNews)"
  then show "paginate e tag count itemLimit allNews offset w = (Inr allNews, w)"
    by (subst paginate.simps) simp
next
  assume "int (length allNews) < count
        \<and> fetch_page e tag (if count - int (length allNews) < itemLimit
                             then count - int (length allNews) else itemLimit) offset w
            = (Inr [], w1)"
  then show "paginate e tag count itemLimit allNews offset w = (Inr allNews, w1)"
    by (subst paginate.simps) (simp add: Let_def)
next
  show "clock (snd (paginate e tag count itemLimit allNews offset w)) - clock w
        \<le> nat (count - int (length allNews))"
    by (rule paginate_requests)
next
  assume "EnablePagination options \<and> ItemLimit options < count"
  then show "clock (snd (FetchNews e tag count options w)) - clock w \<le> nat count"
    using paginate_requests[of e tag count "ItemLimit options" "[]" 0 w]
    by (simp add: FetchNews_def)
qed

theorem pagination_terminates_witness:
  "EnablePagination BulkFetchOptions \<and> ItemLimit BulkFetchOptions < 200
   \<and> clock (snd (FetchNews env_three ''patch-notes'' 200 BulkFetchOptions world_ready))
        - clock world_ready \<le> nat 200
   \<and> clock (snd (FetchNews env_three ''patch-notes'' 200 BulkFetchOptions world_ready)) = 2
   \<and> (case fst (FetchNews env_three ''patch-notes'' 200 BulkFetchOptions world_ready) of
         Inl err \<Rightarrow> [] | Inr items \<Rightarrow> map ID items) = [12345, 12346, 0]"
proof -
  have h: "EnablePagination BulkFetchOptions \<and> ItemLimit BulkFetchOptions < 200"
    by (simp add: BulkFetchOptions_def)
  have c: "clock (snd (FetchNews env_three ''patch-notes'' 200 BulkFetchOptions world_ready)) = 2"
    by code_simp
  have r: "(case fst (FetchNews env_three ''patch-notes'' 200 BulkFetchOptions world_ready) of
         Inl err \<Rightarrow> [] | Inr items \<Rightarrow> map ID items) = [12345, 12346, 0]"
    by code_simp
  from pagination_terminates[where e = env_three and tag = "''patch-notes''" and w = world_ready
      and options = BulkFetchOptions and count = 200,
      THEN conjunct2, THEN conjunct2, THEN conjunct2, THEN mp, OF h]
  show ?thesis using h c r by simp
qed

section \<open>The posted message\<close>

text \<open>
  Claim C8 (message format). The embed built for posting copies the title as it is: for
  the article with a title of 257 bytes the posted title has 257 bytes, while
  \<^verbatim>\<open>formatNewsEmbed\<close>, the sibling used for command replies, cuts the same title to 256.
\<close>

theorem posted_title_not_truncated:
  "length (EmbedTitle (formatNewsForDiscord env_quiet long_title_item)) = 257
   \<and> length (EmbedTitle (formatNewsEmbed env_quiet long_title_item)) = 256"
  by (simp add: formatNewsForDiscord_def formatNewsEmbed_def TruncateText_def
        long_title_item_def zero_item_def Let_def)

text \<open>
  The rest of the format holds for every article: the title is the article's title; the
  description is the summary, cut to 2045 bytes and three dots when it is longer than
  2048 bytes, so never longer than 2048; the URL ends with the id; the footer and the
  two inline fields name the platforms and the tags; the time stamp is the RFC3339 form
  of the update time; there is a thumbnail exactly when the thumbnail URL is not empty;
  the colour is \<^verbatim>\<open>0x00ff00\<close>.
\<close>

theorem posted_embed_format:
  "EmbedTitle (formatNewsForDiscord e newsItem) = Title newsItem
   \<and> EmbedDescription (formatNewsForDiscord e newsItem) =
       (if length (Summary newsItem) > 2048 then take 2045 (Summary newsItem) @ ''...''
        else Summary newsItem)
   \<and> length (EmbedDescription (formatNewsForDiscord e newsItem)) \<le> 2048
   \<and> EmbedURL (formatNewsForDiscord e newsItem) =
       ''https://playstartrekonline.com/en/news/article/'' @ itoa (ID newsItem)
   \<and> EmbedFooter (formatNewsForDiscord e newsItem) =
       ''Platforms: '' @ join '', '' (Platforms newsItem)
   \<and> EmbedFields (formatNewsForDiscord e newsItem) =
       [\<lparr>FieldName = ''Tags'', FieldValue = join '', '' (Tags newsItem), FieldInline = True\<rparr>,
        \<lparr>FieldName = ''Platforms'', FieldValue = join '', '' (Platforms newsItem),
         FieldInline = True\<rparr>]
   \<and> EmbedTimestamp (formatNewsForDiscord e newsItem) =
       time_format e ''2006-01-02T15:04:05Z07:00'' (Updated newsItem)
   \<and> (EmbedThumbnail (formatNewsForDiscord e newsItem) \<noteq> None) = (ThumbnailURL newsItem \<noteq> [])
   \<and> EmbedColor (formatNewsForDiscord e newsItem) = 65280"
  by (simp add: formatNewsForDiscord_def Let_def)


section \<open>The delivery engine\<close>

lemma same_ledger_refl [simp]: "same_ledger w w"
  by (simp add: same_ledger_def)















declare cache_attempts.simps [simp del]


























text \<open>
  The boundary of the previous property (the caveat of the specification on ledger
  writes): in scenario S4, when all four attempts to record the delivery of article 300
  fail, the article is posted to the channel a second time by a later run.
\<close>

theorem ledger_write_failure_reposts:
  "\<not> ledger_writable env_ledger_down
   \<and> post_count (run_engine env_ledger_down config_s4 [Tick, Tick, CatchUp 7, Tick] world_s4) 300 ''CH3'' = 2"
proof -
  have "db_fault env_ledger_down 13 \<and> db_fault env_ledger_down (13 + 1)
      \<and> db_fault env_ledger_down (13 + 2) \<and> db_fault env_ledger_down (13 + 3)"
    by (simp add: env_ledger_down_def)
  then have "\<not> ledger_writable env_ledger_down"
    unfolding ledger_writable_def by blast
  moreover have "post_count (run_engine env_ledger_down config_s4 [Tick, Tick, CatchUp 7, Tick] world_s4)
      300 ''CH3'' = 2"
    by code_simp
  ultimately show ?thesis by simp
qed

end
